theory Spec2Isabelle
  imports Complex_Main
begin

section \<open>The Python library functions the strategy calls\<close>

text \<open>
  The strategy \<^verbatim>\<open>rklb_swing.py\<close> is Python on top of the LEAN engine. Prices, cash and
  indicator values reach it as Python floats; they are modelled as exact reals, so every
  threshold comparison below is the comparison the source writes, without rounding.
  The one place where the source turns a float into an integer is the share count of an
  entry, \<^verbatim>\<open>int(available_cash / price)\<close>: there a rounding error of the last bit can move
  the result by a whole share, so the product and the quotient of that computation are
  rounded as IEEE 754 binary64 arithmetic rounds them (\<open>round_double\<close> below).
  Python's unbounded \<^verbatim>\<open>int\<close> is \<^typ>\<open>int\<close>, \<^verbatim>\<open>str\<close> is \<^typ>\<open>string\<close> (ASCII).
\<close>

datatype py_error = ValueError | ZeroDivisionError

text \<open>\<^verbatim>\<open>a / b\<close> on numbers raises \<^verbatim>\<open>ZeroDivisionError\<close> when \<^verbatim>\<open>b\<close> is zero.\<close>

definition py_truediv :: "real \<Rightarrow> real \<Rightarrow> py_error + real" where
  "py_truediv a b = (if b = 0 then Inl ZeroDivisionError else Inr (a / b))"

text \<open>\<^verbatim>\<open>int(x)\<close> on a float truncates towards zero.\<close>

definition py_int_of_float :: "real \<Rightarrow> int" where
  "py_int_of_float x = (if 0 \<le> x then \<lfloor>x\<rfloor> else \<lceil>x\<rceil>)"

subsection \<open>Float arithmetic\<close>

text \<open>
  A Python float is an IEEE 754 binary64 number: a multiple of \<open>2 ^ (e - 52)\<close> of magnitude
  in \<open>[2 ^ e, 2 ^ (e + 1))\<close> with \<open>- 1022 \<le> e\<close> (below \<open>2 ^ - 1022\<close> the spacing stays
  \<open>2 ^ - 1074\<close>). An arithmetic operation returns the float nearest to the exact result, a
  tie going to the one whose last bit is even. \<open>ilog2 n\<close> is the position of the leading
  bit of \<open>n\<close>, \<open>binade a\<close> the exponent \<open>e\<close> with \<open>2 ^ e \<le> a < 2 ^ (e + 1)\<close>. The exponent is
  not bounded above: cash and prices are decimals of the engine, of magnitude below
  \<open>2 ^ 96\<close> and at least \<open>10 ^ - 28\<close> when positive, so the results rounded here stay far from
  the overflow threshold \<open>2 ^ 1024\<close>.
\<close>

function ilog2 :: "int \<Rightarrow> int" where
  "ilog2 n = (if n \<le> 1 then 0 else 1 + ilog2 (n div 2))"
  by pat_completeness auto
termination by (relation "measure nat") auto

declare ilog2.simps [simp del]

definition two_to :: "int \<Rightarrow> real" where
  "two_to k = (if 0 \<le> k then 2 ^ nat k else 1 / 2 ^ nat (- k))"

definition binade :: "real \<Rightarrow> int" where
  "binade a = (if 1 \<le> a then ilog2 \<lfloor>a\<rfloor> else - (ilog2 (\<lceil>1 / a\<rceil> - 1) + 1))"

definition round_half_even :: "real \<Rightarrow> int" where
  "round_half_even x =
     (let f = \<lfloor>x\<rfloor>; r = x - of_int f
      in if r < 1 / 2 then f
         else if 1 / 2 < r then f + 1
         else if even f then f else f + 1)"

definition round_double :: "real \<Rightarrow> real" where
  "round_double x =
     (if x = 0 then 0
      else (let a = \<bar>x\<bar>;
                ulp = two_to (max (binade a) (- 1022) - 52)
            in sgn x * of_int (round_half_even (a / ulp)) * ulp))"

text \<open>\<^verbatim>\<open>a * b\<close> and \<^verbatim>\<open>a / b\<close> on floats, rounded.\<close>

definition float_mul :: "real \<Rightarrow> real \<Rightarrow> real" where
  "float_mul a b = round_double (a * b)"

definition float_truediv :: "real \<Rightarrow> real \<Rightarrow> py_error + real" where
  "float_truediv a b = (if b = 0 then Inl ZeroDivisionError else Inr (round_double (a / b)))"

subsection \<open>Strings\<close>

definition is_space :: "char \<Rightarrow> bool" where
  "is_space c = (let n = (of_char c :: nat) in (9 \<le> n \<and> n \<le> 13) \<or> (28 \<le> n \<and> n \<le> 32))"

definition is_digit :: "char \<Rightarrow> bool" where
  "is_digit c = (let n = (of_char c :: nat) in 48 \<le> n \<and> n \<le> 57)"

text \<open>\<^verbatim>\<open>s.strip()\<close>: leading and trailing whitespace removed.\<close>

definition strip :: "string \<Rightarrow> string" where
  "strip s = rev (dropWhile is_space (rev (dropWhile is_space s)))"

text \<open>\<^verbatim>\<open>s.startswith(p)\<close>.\<close>

definition startswith :: "string \<Rightarrow> string \<Rightarrow> bool" where
  "startswith s p = (take (length p) s = p)"

text \<open>\<^verbatim>\<open>s.split(c)\<close> for a one-character separator: never empty, \<^verbatim>\<open>''.split(',') == ['']\<close>.\<close>

fun split_on :: "char \<Rightarrow> string \<Rightarrow> string list" where
  "split_on c [] = [[]]"
| "split_on c (x # xs) =
     (if x = c then [] # split_on c xs
      else (case split_on c xs of
              [] \<Rightarrow> [[x]]
            | y # ys \<Rightarrow> (x # y) # ys))"

text \<open>The value of a string of decimal digits, read left to right (other characters are skipped).\<close>

definition digits_val :: "string \<Rightarrow> int" where
  "digits_val s = foldl (\<lambda>acc c. 10 * acc + (int (of_char c) - 48)) 0 (filter is_digit s)"

text \<open>
  \<^verbatim>\<open>int(s)\<close> on an ASCII string: the parser skips the whitespace of C's \<^verbatim>\<open>isspace\<close> on both
  sides (tab, line feed, vertical tab, form feed, carriage return and space: a narrower
  set than the one \<^verbatim>\<open>str.strip\<close> removes), allows one sign, then reads decimal digits, where
  single underscores may stand between digits; anything else raises \<^verbatim>\<open>ValueError\<close> (the
  value \<open>None\<close> here), and so does a numeral of more than 4300 digits (the default
  \<^verbatim>\<open>sys.int_max_str_digits\<close> of CPython 3.11).
\<close>

definition is_c_space :: "char \<Rightarrow> bool" where
  "is_c_space c = (let n = (of_char c :: nat) in (9 \<le> n \<and> n \<le> 13) \<or> n = 32)"

definition int_max_str_digits :: nat where
  "int_max_str_digits = 4300"

fun no_double_underscore :: "string \<Rightarrow> bool" where
  "no_double_underscore (a # b # r) =
     (\<not> (a = CHR ''_'' \<and> b = CHR ''_'') \<and> no_double_underscore (b # r))"
| "no_double_underscore r = True"

definition valid_int_body :: "string \<Rightarrow> bool" where
  "valid_int_body b =
     (b \<noteq> [] \<and> is_digit (hd b) \<and> is_digit (last b)
      \<and> list_all (\<lambda>c. is_digit c \<or> c = CHR ''_'') b \<and> no_double_underscore b)"

definition py_int_of_str :: "string \<Rightarrow> int option" where
  "py_int_of_str s =
     (let t = rev (dropWhile is_c_space (rev (dropWhile is_c_space s)));
          neg = (t \<noteq> [] \<and> hd t = CHR ''-'');
          body = (if t \<noteq> [] \<and> (hd t = CHR ''-'' \<or> hd t = CHR ''+'') then tl t else t)
      in if valid_int_body body \<and> length (filter is_digit body) \<le> int_max_str_digits
         then Some (if neg then - digits_val body else digits_val body)
         else None)"

subsection \<open>Dates and times\<close>

text \<open>
  A naive \<^verbatim>\<open>datetime\<close> is the number of microseconds since 0001-01-01T00:00:00 of the
  proleptic Gregorian calendar. The calendar arithmetic follows CPython's \<^verbatim>\<open>datetime\<close>
  module (\<^verbatim>\<open>_is_leap\<close>, \<^verbatim>\<open>_days_before_year\<close>, \<^verbatim>\<open>_days_before_month\<close>, \<^verbatim>\<open>_ymd2ord\<close>,
  \<^verbatim>\<open>_ord2ymd\<close>, \<^verbatim>\<open>_isoweek1monday\<close>, \<^verbatim>\<open>isocalendar\<close>).
\<close>

type_synonym datetime = int

definition us_per_day :: int where
  "us_per_day = 86400000000"

definition us_per_hour :: int where
  "us_per_hour = 3600000000"

definition toordinal :: "datetime \<Rightarrow> int" where
  "toordinal t = t div us_per_day + 1"

text \<open>\<^verbatim>\<open>(a - b).days\<close>: a \<^verbatim>\<open>timedelta\<close> is normalised so that its \<^verbatim>\<open>days\<close> is the floor.\<close>

definition timedelta_days :: "datetime \<Rightarrow> datetime \<Rightarrow> int" where
  "timedelta_days a b = (a - b) div us_per_day"

definition is_leap :: "int \<Rightarrow> bool" where
  "is_leap y = (y mod 4 = 0 \<and> (y mod 100 \<noteq> 0 \<or> y mod 400 = 0))"

definition days_before_year :: "int \<Rightarrow> int" where
  "days_before_year yr = (let y = yr - 1 in y * 365 + y div 4 - y div 100 + y div 400)"

definition days_in_month :: "int \<Rightarrow> int \<Rightarrow> int" where
  "days_in_month y m =
     (if m = 2 \<and> is_leap y then 29
      else [31, 28, 31, 30, 31, 30, 31, 31, 30, 31, 30, 31] ! nat (m - 1))"

definition days_before_month :: "int \<Rightarrow> int \<Rightarrow> int" where
  "days_before_month y m =
     [0, 31, 59, 90, 120, 151, 181, 212, 243, 273, 304, 334] ! nat (m - 1)
       + (if m > 2 \<and> is_leap y then 1 else 0)"

definition ymd2ord :: "int \<Rightarrow> int \<Rightarrow> int \<Rightarrow> int" where
  "ymd2ord y m d = days_before_year y + days_before_month y m + d"

text \<open>The year of a day number, as \<^verbatim>\<open>_ord2ymd\<close> finds it.\<close>

definition ord2year :: "int \<Rightarrow> int" where
  "ord2year ordinal =
     (let n = ordinal - 1;
          n400 = n div 146097; n = n mod 146097;
          n100 = n div 36524; n = n mod 36524;
          n4 = n div 1461; n = n mod 1461;
          n1 = n div 365;
          yr = n400 * 400 + 1 + n100 * 100 + n4 * 4 + n1
      in if n1 = 4 \<or> n100 = 4 then yr - 1 else yr)"

definition isoweek1monday :: "int \<Rightarrow> int" where
  "isoweek1monday yr =
     (let firstday = ymd2ord yr 1 1;
          firstweekday = (firstday + 6) mod 7;
          week1monday = firstday - firstweekday
      in if firstweekday > 3 then week1monday + 7 else week1monday)"

text \<open>\<^verbatim>\<open>t.isocalendar()[1]\<close>: the ISO week number, 1 to 53.\<close>

definition isocalendar_week :: "datetime \<Rightarrow> int" where
  "isocalendar_week t =
     (let today = toordinal t;
          yr = ord2year today;
          week = (today - isoweek1monday yr) div 7
      in if week < 0 then (today - isoweek1monday (yr - 1)) div 7 + 1
         else if week \<ge> 52 \<and> today \<ge> isoweek1monday (yr + 1) then 1
         else week + 1)"

text \<open>
  \<^verbatim>\<open>datetime.strptime(s, "%Y-%m-%d")\<close>: four digits, a month \<^verbatim>\<open>1\<close> to \<^verbatim>\<open>12\<close> written
  with one or two digits, a day \<^verbatim>\<open>1\<close> to \<^verbatim>\<open>31\<close> written with one or two digits (or a
  space and one digit), separated by \<^verbatim>\<open>-\<close>, and nothing else; the date must exist.
  \<open>None\<close> stands for \<^verbatim>\<open>ValueError\<close>. The result is midnight of that day.
\<close>

definition field_1_or_2 :: "string \<Rightarrow> int \<Rightarrow> int option" where
  "field_1_or_2 s hi =
     (if (length s = 1 \<or> length s = 2) \<and> list_all is_digit s
         \<and> 1 \<le> digits_val s \<and> digits_val s \<le> hi
      then Some (digits_val s) else None)"

definition strptime_Y :: "string \<Rightarrow> int option" where
  "strptime_Y s = (if length s = 4 \<and> list_all is_digit s then Some (digits_val s) else None)"

definition strptime_m :: "string \<Rightarrow> int option" where
  "strptime_m s = field_1_or_2 s 12"

definition strptime_d :: "string \<Rightarrow> int option" where
  "strptime_d s =
     (case s of
        [a, b] \<Rightarrow> if a = CHR '' '' then field_1_or_2 [b] 9 else field_1_or_2 s 31
      | _ \<Rightarrow> field_1_or_2 s 31)"

definition strptime_ymd :: "string \<Rightarrow> datetime option" where
  "strptime_ymd s =
     (case split_on CHR ''-'' s of
        [ys, ms, ds] \<Rightarrow>
          (case (strptime_Y ys, strptime_m ms, strptime_d ds) of
             (Some y, Some m, Some d) \<Rightarrow>
               if 1 \<le> y \<and> d \<le> days_in_month y m
               then Some ((ymd2ord y m d - 1) * us_per_day)
               else None
           | _ \<Rightarrow> None)
      | _ \<Rightarrow> None)"

section \<open>The launch calendar: \<^verbatim>\<open>RocketLabLaunch\<close>\<close>

text \<open>
  A record of the custom data source. \<^verbatim>\<open>Value\<close> is the signal (1: upcoming launch,
  2: launch day, by the class's docstring); the string-keyed entries \<^verbatim>\<open>launch["Mission"]\<close>,
  \<^verbatim>\<open>launch["FlightNo"]\<close>, \<^verbatim>\<open>launch["Outcome"]\<close> and \<^verbatim>\<open>launch["DaysToLaunch"]\<close> are fields.
\<close>

record RocketLabLaunch =
  Symbol :: string
  launch_Time :: datetime
  Value :: int
  Mission :: string
  FlightNo :: string
  Outcome :: string
  DaysToLaunch :: string

text \<open>
  \<^verbatim>\<open>Reader(self, config, line, date, isLive)\<close>: one CSV line to one record, or \<open>None\<close>.
  Of \<^verbatim>\<open>config\<close> only \<^verbatim>\<open>config.Symbol\<close> is read. The \<^verbatim>\<open>try\<close> block can only fail in
  \<^verbatim>\<open>strptime\<close> (the line has at least four fields by then).
\<close>

definition Reader :: "string \<Rightarrow> string \<Rightarrow> RocketLabLaunch option" where
  "Reader config_Symbol line =
     (if strip line = [] \<or> startswith line ''Date'' then None
      else
        let data = split_on CHR '','' line in
        if length data < 4 then None
        else
          (case strptime_ymd (strip (data ! 0)) of
             None \<Rightarrow> None
           | Some launch_date \<Rightarrow>
               Some \<lparr> Symbol = config_Symbol,
                      launch_Time = launch_date + 12 * us_per_hour,
                      Value = 2,
                      Mission = strip (data ! 1),
                      FlightNo = strip (data ! 2),
                      Outcome = strip (data ! 3),
                      DaysToLaunch = ''0'' \<rparr>))"

section \<open>The strategy: \<^verbatim>\<open>RKLBSwingStrategy\<close>\<close>

text \<open>The fields of \<^verbatim>\<open>self\<close> that \<^verbatim>\<open>Initialize\<close> creates.\<close>

record strategy =
  entry_price :: real
  entry_date :: "datetime option"
  stop_loss_pct :: real
  take_profit_pct :: real
  max_hold_days :: int
  trades_this_week :: int
  last_week :: int
  max_trades_per_week :: int
  upcoming_launch :: bool
  days_to_launch :: int
  last_launch_outcome :: "string option"
  days_since_launch :: int
  signal_log :: "string list"

definition Initialize :: strategy where
  "Initialize =
     \<lparr> entry_price = 0,
       entry_date = None,
       stop_loss_pct = 0.05,
       take_profit_pct = 0.10,
       max_hold_days = 10,
       trades_this_week = 0,
       last_week = - 1,
       max_trades_per_week = 5,
       upcoming_launch = False,
       days_to_launch = 999,
       last_launch_outcome = None,
       days_since_launch = 999,
       signal_log = [] \<rparr>"

text \<open>
  What the engine shows the strategy during one call of \<^verbatim>\<open>OnData\<close>: the clock, the slice
  (\<open>launch\<close>: \<^verbatim>\<open>data[self.launch_data]\<close> when \<^verbatim>\<open>self.launch_data in data\<close>; \<open>has_rklb\<close>:
  \<^verbatim>\<open>self.rklb in data and data[self.rklb] is not None\<close>), the security's price, the
  portfolio and the indicators. The engine, the broker and the indicators are outside the
  repository, so each call may see any values.
\<close>

record slice =
  IsWarmingUp :: bool
  Time :: datetime
  launch :: "RocketLabLaunch option"
  has_rklb :: bool
  Price :: real
  Invested :: bool
  Cash :: real
  rsi_IsReady :: bool
  macd_IsReady :: bool
  sma_fast_IsReady :: bool
  sma_slow_IsReady :: bool
  rsi_Value :: real
  macd_Value :: real
  macd_Signal :: real
  macd_Histogram :: real
  sma_fast_Value :: real
  sma_slow_Value :: real
  bb_LowerBand :: real
  bb_MiddleBand :: real

text \<open>
  What a call does to the outside: orders and log lines, in the order issued. A log line
  is kept as the f-string's fixed text (the constructor) and the values it interpolates,
  not as formatted characters. The four exit lines differ in their fixed text only
  (\<^verbatim>\<open>STOP LOSS\<close>, \<^verbatim>\<open>TAKE PROFIT\<close>, \<^verbatim>\<open>TIME STOP\<close>, \<^verbatim>\<open>TRAILING STOP\<close>): the \<open>exit_reason\<close>.
\<close>

datatype exit_reason = STOP_LOSS | TAKE_PROFIT | TIME_STOP | TRAILING_STOP

datatype reason =
    RSI_oversold_recovery real
  | MACD_bullish real
  | SMA_uptrend real real
  | Price_above_SMA20
  | Near_Bollinger_lower_band
  | Launch_in_days int
  | Post_launch_momentum int

datatype log_line =
    LAUNCH_EVENT string string
  | BUY int real int real real
  | SIGNAL_SCORE int "reason list"
  | Sold exit_reason real real int

datatype effect = MarketOrder int | Liquidate | Log log_line

subsection \<open>\<^verbatim>\<open>CalculateSignalScore\<close>\<close>

text \<open>One \<^verbatim>\<open>if cond: score += 1; reasons.append(r)\<close> block.\<close>

definition add_point :: "bool \<Rightarrow> reason \<Rightarrow> int \<times> reason list \<Rightarrow> int \<times> reason list" where
  "add_point cond r acc = (if cond then (fst acc + 1, snd acc @ [r]) else acc)"

text \<open>
  Returns the score, the final \<^verbatim>\<open>reasons\<close> list, and the log line written when the score
  is at least 3. The method assigns no field of \<^verbatim>\<open>self\<close>.
\<close>

definition CalculateSignalScore :: "strategy \<Rightarrow> slice \<Rightarrow> real \<Rightarrow> int \<times> reason list \<times> effect list" where
  "CalculateSignalScore s d price =
     (let acc0 = (0, []);
          rsi_val = rsi_Value d;
          acc1 = add_point (30 < rsi_val \<and> rsi_val < 45) (RSI_oversold_recovery rsi_val) acc0;
          macd_val = macd_Value d;
          macd_signal = macd_Signal d;
          macd_hist = macd_Histogram d;
          acc2 = add_point (macd_val > macd_signal \<and> macd_hist > 0) (MACD_bullish macd_hist) acc1;
          sma_fast_val = sma_fast_Value d;
          sma_slow_val = sma_slow_Value d;
          acc3 = add_point (sma_fast_val > sma_slow_val) (SMA_uptrend sma_fast_val sma_slow_val) acc2;
          acc4 = add_point (price > sma_fast_val) Price_above_SMA20 acc3;
          bb_lower = bb_LowerBand d;
          acc5 = add_point (price < bb_lower * 1.02) Near_Bollinger_lower_band acc4;
          acc6 = add_point (upcoming_launch s \<and> 1 \<le> days_to_launch s \<and> days_to_launch s \<le> 5)
                   (Launch_in_days (days_to_launch s)) acc5;
          acc7 = add_point (days_since_launch s \<le> 3 \<and> last_launch_outcome s = Some ''Success'')
                   (Post_launch_momentum (days_since_launch s)) acc6;
          score = fst acc7;
          reasons = snd acc7
      in (score, reasons, if score \<ge> 3 then [Log (SIGNAL_SCORE score reasons)] else []))"

subsection \<open>\<^verbatim>\<open>ResetPosition\<close> and \<^verbatim>\<open>ManagePosition\<close>\<close>

definition ResetPosition :: "strategy \<Rightarrow> strategy" where
  "ResetPosition s = s\<lparr>entry_price := 0, entry_date := None\<rparr>"

text \<open>
  \<^verbatim>\<open>ManagePosition(self, price)\<close> reads the clock \<^verbatim>\<open>self.Time\<close>. Each exit branch
  liquidates, logs and resets, then returns.
\<close>

definition ManagePosition :: "strategy \<Rightarrow> slice \<Rightarrow> real \<Rightarrow> py_error + strategy \<times> effect list" where
  "ManagePosition s d price =
     (if entry_price s \<le> 0 then Inr (s, [])
      else
        (case py_truediv (price - entry_price s) (entry_price s) of
           Inl e \<Rightarrow> Inl e
         | Inr pnl_pct \<Rightarrow>
             let days_held = (case entry_date s of Some t \<Rightarrow> timedelta_days (Time d) t | None \<Rightarrow> 0) in
             if pnl_pct \<le> - stop_loss_pct s then
               Inr (ResetPosition s, [Liquidate, Log (Sold STOP_LOSS price (pnl_pct * 100) days_held)])
             else if pnl_pct \<ge> take_profit_pct s then
               Inr (ResetPosition s, [Liquidate, Log (Sold TAKE_PROFIT price (pnl_pct * 100) days_held)])
             else if days_held \<ge> max_hold_days s then
               Inr (ResetPosition s, [Liquidate, Log (Sold TIME_STOP price (pnl_pct * 100) days_held)])
             else if pnl_pct > 0.05 then
               (let trailing_stop = entry_price s * 1.03 in
                if price \<le> trailing_stop then
                  Inr (ResetPosition s, [Liquidate, Log (Sold TRAILING_STOP price (pnl_pct * 100) days_held)])
                else Inr (s, []))
             else Inr (s, [])))"

subsection \<open>\<^verbatim>\<open>OnData\<close>\<close>

text \<open>
  \<^verbatim>\<open>OnData\<close> is a sequence of commented blocks; each block that assigns fields is a
  function here, and \<open>OnData\<close> below puts them in the source's order, with its early
  returns. A block gives the fields of \<^verbatim>\<open>self\<close> afterwards and the effects issued, or the
  exception that ends the call.
\<close>

text \<open>\<^verbatim>\<open># Reset weekly trade counter\<close> (lines 74 to 78).\<close>

definition reset_weekly_counter :: "strategy \<Rightarrow> datetime \<Rightarrow> strategy" where
  "reset_weekly_counter s now =
     (let current_week = isocalendar_week now in
      if current_week \<noteq> last_week s
      then s\<lparr>trades_this_week := 0, last_week := current_week\<rparr>
      else s)"

text \<open>
  \<^verbatim>\<open># Process launch events\<close> (lines 80 to 90). \<^verbatim>\<open>int(launch["DaysToLaunch"])\<close> raises
  \<^verbatim>\<open>ValueError\<close> on a string that is not an integer.
\<close>

definition process_launch_events :: "strategy \<Rightarrow> RocketLabLaunch option \<Rightarrow> py_error + strategy \<times> effect list" where
  "process_launch_events s data_launch =
     (case data_launch of
        None \<Rightarrow> Inr (s, [])
      | Some l \<Rightarrow>
          if Value l = 1 then
            (case py_int_of_str (DaysToLaunch l) of
               None \<Rightarrow> Inl ValueError
             | Some n \<Rightarrow> Inr (s\<lparr>upcoming_launch := True, days_to_launch := n\<rparr>, []))
          else if Value l = 2 then
            Inr (s\<lparr>days_since_launch := 0,
                    last_launch_outcome := Some (Outcome l),
                    upcoming_launch := False\<rparr>,
                 [Log (LAUNCH_EVENT (Mission l) (Outcome l))])
          else Inr (s, []))"

text \<open>\<^verbatim>\<open># Increment days since launch\<close> (lines 92 and 93).\<close>

definition increment_days_since_launch :: "strategy \<Rightarrow> strategy" where
  "increment_days_since_launch s = s\<lparr>days_since_launch := days_since_launch s + 1\<rparr>"

text \<open>
  \<^verbatim>\<open># ---- GENERATE ENTRY SIGNALS ----\<close> (lines 108 to 128), reached when not invested. The
  literal \<^verbatim>\<open>0.95\<close> is the float nearest to 0.95; \<^verbatim>\<open>available_cash\<close> and the quotient are floats.
\<close>

definition generate_entry_signals :: "strategy \<Rightarrow> slice \<Rightarrow> real \<Rightarrow> py_error + strategy \<times> effect list" where
  "generate_entry_signals s d price =
     (if trades_this_week s \<ge> max_trades_per_week s then Inr (s, [])
      else if \<not> (rsi_IsReady d \<and> macd_IsReady d \<and> sma_fast_IsReady d \<and> sma_slow_IsReady d)
      then Inr (s, [])
      else
        (case CalculateSignalScore s d price of
           (signal_score, reasons, log_score) \<Rightarrow>
             if signal_score \<ge> 3 then
               (let available_cash = float_mul (Cash d) (round_double 0.95) in
                case float_truediv available_cash price of
                  Inl e \<Rightarrow> Inl e
                | Inr q \<Rightarrow>
                    let shares = py_int_of_float q in
                    if shares > 0 then
                      Inr (s\<lparr>entry_price := price,
                              entry_date := Some (Time d),
                              trades_this_week := trades_this_week s + 1\<rparr>,
                           log_score @
                           [MarketOrder shares,
                            Log (BUY shares price signal_score (rsi_Value d) (macd_Value d))])
                    else Inr (s, log_score))
             else Inr (s, log_score)))"

definition OnData :: "strategy \<Rightarrow> slice \<Rightarrow> py_error + strategy \<times> effect list" where
  "OnData s d =
     (if IsWarmingUp d then Inr (s, [])
      else
        let s1 = reset_weekly_counter s (Time d) in
        (case process_launch_events s1 (launch d) of
           Inl e \<Rightarrow> Inl e
         | Inr (s2, log_launch) \<Rightarrow>
             let s3 = increment_days_since_launch s2 in
             if \<not> has_rklb d then Inr (s3, log_launch)
             else
               let price = Price d in
               if price \<le> 0 then Inr (s3, log_launch)
               else if Invested d then
                 (case ManagePosition s3 d price of
                    Inl e \<Rightarrow> Inl e
                  | Inr (s4, effs) \<Rightarrow> Inr (s4, log_launch @ effs))
               else
                 (case generate_entry_signals s3 d price of
                    Inl e \<Rightarrow> Inl e
                  | Inr (s4, effs) \<Rightarrow> Inr (s4, log_launch @ effs))))"

text \<open>A run: \<^verbatim>\<open>OnData\<close> once per step, until a call raises.\<close>

fun run :: "strategy \<Rightarrow> slice list \<Rightarrow> py_error + strategy \<times> effect list" where
  "run s [] = Inr (s, [])"
| "run s (d # ds) =
     (case OnData s d of
        Inl e \<Rightarrow> Inl e
      | Inr (s', effs) \<Rightarrow>
          (case run s' ds of
             Inl e \<Rightarrow> Inl e
           | Inr (s'', effs') \<Rightarrow> Inr (s'', effs @ effs')))"

section \<open>Reading a call's effects\<close>

text \<open>The exit lines logged, the share counts of the market orders, and the liquidations.\<close>

fun exit_of :: "effect \<Rightarrow> exit_reason list" where
  "exit_of (Log (Sold r price pnl days)) = [r]"
| "exit_of e = []"

definition exit_reasons :: "effect list \<Rightarrow> exit_reason list" where
  "exit_reasons effs = concat (map exit_of effs)"

fun order_of :: "effect \<Rightarrow> int list" where
  "order_of (MarketOrder n) = [n]"
| "order_of e = []"

definition orders :: "effect list \<Rightarrow> int list" where
  "orders effs = concat (map order_of effs)"

definition liquidations :: "effect list \<Rightarrow> nat" where
  "liquidations effs = length (filter (\<lambda>e. e = Liquidate) effs)"

text \<open>The reasons written in the \<^verbatim>\<open>SIGNAL SCORE\<close> log lines, and those naming an upcoming launch.\<close>

fun logged_reasons :: "effect \<Rightarrow> reason list" where
  "logged_reasons (Log (SIGNAL_SCORE n rs)) = rs"
| "logged_reasons e = []"

definition signal_reasons :: "effect list \<Rightarrow> reason list" where
  "signal_reasons effs = concat (map logged_reasons effs)"

fun is_launch_reason :: "reason \<Rightarrow> bool" where
  "is_launch_reason (Launch_in_days k) = True"
| "is_launch_reason r = False"

text \<open>
  The launch record of a step, if any, lets \<^verbatim>\<open>int(launch["DaysToLaunch"])\<close> succeed where
  the source evaluates it: the call then raises nothing.
\<close>

definition days_to_launch_readable :: "RocketLabLaunch option \<Rightarrow> bool" where
  "days_to_launch_readable data_launch =
     (case data_launch of
        None \<Rightarrow> True
      | Some l \<Rightarrow> Value l = 1 \<longrightarrow> py_int_of_str (DaysToLaunch l) \<noteq> None)"

text \<open>
  The locals \<^verbatim>\<open>pnl_pct\<close> and \<^verbatim>\<open>days_held\<close> of \<^verbatim>\<open>ManagePosition\<close>, as functions of the
  fields, the price and the clock.
\<close>

definition pnl_pct :: "strategy \<Rightarrow> real \<Rightarrow> real" where
  "pnl_pct s price = (price - entry_price s) / entry_price s"

definition days_held :: "strategy \<Rightarrow> datetime \<Rightarrow> int" where
  "days_held s now = (case entry_date s of Some t \<Rightarrow> timedelta_days now t | None \<Rightarrow> 0)"

text \<open>
  The exit triggers as the specification lists them (section 4.4): stop-loss, take-profit,
  time-stop, trailing-stop, checked in this order, the first that holds being the exit.
  This definition follows the specification's words; the theorems compare
  \<open>ManagePosition\<close> with it.
\<close>

definition exit_in_order :: "strategy \<Rightarrow> datetime \<Rightarrow> real \<Rightarrow> exit_reason list" where
  "exit_in_order s now price =
     (if pnl_pct s price \<le> - stop_loss_pct s then [STOP_LOSS]
      else if pnl_pct s price \<ge> take_profit_pct s then [TAKE_PROFIT]
      else if days_held s now \<ge> max_hold_days s then [TIME_STOP]
      else if pnl_pct s price > 0.05 \<and> price \<le> entry_price s * 1.03 then [TRAILING_STOP]
      else [])"

text \<open>
  The seven predicates of the signal scorer as the specification lists them (section 4.2),
  in its order, each with the reason reported when it holds. This definition follows the
  specification's words; the theorems compare \<open>CalculateSignalScore\<close> with it.
\<close>

definition seven_predicates :: "strategy \<Rightarrow> slice \<Rightarrow> real \<Rightarrow> (bool \<times> reason) list" where
  "seven_predicates s d price =
     [(30 < rsi_Value d \<and> rsi_Value d < 45, RSI_oversold_recovery (rsi_Value d)),
      (macd_Value d > macd_Signal d \<and> macd_Histogram d > 0, MACD_bullish (macd_Histogram d)),
      (sma_fast_Value d > sma_slow_Value d, SMA_uptrend (sma_fast_Value d) (sma_slow_Value d)),
      (price > sma_fast_Value d, Price_above_SMA20),
      (price < bb_LowerBand d * 1.02, Near_Bollinger_lower_band),
      (upcoming_launch s \<and> 1 \<le> days_to_launch s \<and> days_to_launch s \<le> 5,
         Launch_in_days (days_to_launch s)),
      (days_since_launch s \<le> 3 \<and> last_launch_outcome s = Some ''Success'',
         Post_launch_momentum (days_since_launch s))]"

text \<open>
  A step seen while a position is held, on which \<^verbatim>\<open>OnData\<close> reaches \<^verbatim>\<open>ManagePosition\<close>
  with a valid entry price and neither the stop-loss nor the take-profit condition holds.
\<close>

definition held_in_band :: "strategy \<Rightarrow> slice \<Rightarrow> bool" where
  "held_in_band s d =
     (\<not> IsWarmingUp d \<and> days_to_launch_readable (launch d) \<and> has_rklb d \<and> 0 < Price d
      \<and> Invested d \<and> 0 < entry_price s
      \<and> - stop_loss_pct s < pnl_pct s (Price d) \<and> pnl_pct s (Price d) < take_profit_pct s)"

text \<open>
  The share count of an entry as the specification writes it (section 4.5),
  \<open>floor (availableCash * 0.95 / price)\<close>, on exact numbers. This definition follows the
  specification's words; the source computes \<^verbatim>\<open>int(available_cash / price)\<close> on floats.
\<close>

definition floor_shares :: "real \<Rightarrow> real \<Rightarrow> int" where
  "floor_shares cash price = \<lfloor>cash * 0.95 / price\<rfloor>"

section \<open>Concrete inputs\<close>

text \<open>
  \<open>midnight y m d\<close> is \<^verbatim>\<open>datetime(y, m, d)\<close>. \<open>quiet_bar\<close> is a daily bar whose indicators
  satisfy none of the five technical predicates; \<open>signal_bar\<close> is a bar seen while flat
  whose indicators satisfy the first three (RSI 38, MACD 0.5 over its signal 0.3 with
  histogram 0.2, SMA20 11 over SMA50 10), and the fourth when the price is above 11.
  \<open>held_at\<close> is the strategy holding a position entered at a given price and time.
\<close>

definition midnight :: "int \<Rightarrow> int \<Rightarrow> int \<Rightarrow> datetime" where
  "midnight y m d = (ymd2ord y m d - 1) * us_per_day"

definition quiet_bar :: "datetime \<Rightarrow> real \<Rightarrow> bool \<Rightarrow> slice" where
  "quiet_bar now price invested =
     \<lparr> IsWarmingUp = False, Time = now, launch = None, has_rklb = True,
       Price = price, Invested = invested, Cash = 1000,
       rsi_IsReady = True, macd_IsReady = True, sma_fast_IsReady = True, sma_slow_IsReady = True,
       rsi_Value = 50, macd_Value = 0, macd_Signal = 0, macd_Histogram = 0,
       sma_fast_Value = 1000000, sma_slow_Value = 1000000,
       bb_LowerBand = 0, bb_MiddleBand = 0 \<rparr>"

definition signal_bar :: "datetime \<Rightarrow> real \<Rightarrow> real \<Rightarrow> slice" where
  "signal_bar now price cash =
     \<lparr> IsWarmingUp = False, Time = now, launch = None, has_rklb = True,
       Price = price, Invested = False, Cash = cash,
       rsi_IsReady = True, macd_IsReady = True, sma_fast_IsReady = True, sma_slow_IsReady = True,
       rsi_Value = 38, macd_Value = 0.5, macd_Signal = 0.3, macd_Histogram = 0.2,
       sma_fast_Value = 11, sma_slow_Value = 10,
       bb_LowerBand = 0, bb_MiddleBand = 0 \<rparr>"

definition held_at :: "real \<Rightarrow> datetime \<Rightarrow> strategy" where
  "held_at price now = Initialize\<lparr>entry_price := price, entry_date := Some now\<rparr>"

text \<open>
  \<open>launch_bar\<close> is a quiet bar seen while flat at price 10 whose slice carries the record
  that \<open>Reader\<close> makes of a line of the launch calendar. \<open>days_since_launch_after\<close> reads
  the field \<^verbatim>\<open>days_since_launch\<close> at the end of a run.
\<close>

definition launch_bar :: "datetime \<Rightarrow> string \<Rightarrow> slice" where
  "launch_bar now line = (quiet_bar now 10 False)\<lparr>launch := Reader ''RKLBLAUNCHES'' line\<rparr>"

definition days_since_launch_after :: "strategy \<Rightarrow> slice list \<Rightarrow> int option" where
  "days_since_launch_after s ds =
     (case run s ds of Inr (s', effs) \<Rightarrow> Some (days_since_launch s') | Inl e \<Rightarrow> None)"

text \<open>\<open>trades_and_orders\<close> reads the weekly count at the end of a run and the orders issued in it.\<close>

definition trades_and_orders :: "py_error + strategy \<times> effect list \<Rightarrow> (int \<times> int list) option" where
  "trades_and_orders r =
     (case r of Inr (s, effs) \<Rightarrow> Some (trades_this_week s, orders effs) | Inl e \<Rightarrow> None)"

section \<open>Properties\<close>

subsection \<open>The blocks of a call\<close>

lemma exit_reasons_simps [simp]:
  "exit_reasons [] = []"
  "exit_reasons (e # effs) = exit_of e @ exit_reasons effs"
  "exit_reasons (xs @ ys) = exit_reasons xs @ exit_reasons ys"
  by (simp_all add: exit_reasons_def)

lemma orders_simps [simp]:
  "orders [] = []"
  "orders (e # effs) = order_of e @ orders effs"
  "orders (xs @ ys) = orders xs @ orders ys"
  by (simp_all add: orders_def)

lemma liquidations_simps [simp]:
  "liquidations [] = 0"
  "liquidations (e # effs) = (if e = Liquidate then 1 else 0) + liquidations effs"
  "liquidations (xs @ ys) = liquidations xs + liquidations ys"
  by (simp_all add: liquidations_def)

lemma trailing_dead:
  fixes e p :: real
  assumes "0 < e" "(p - e) / e > 0.05"
  shows "p > e * 1.05" "\<not> p \<le> e * 1.03"
proof -
  from assms have *: "p - e > 0.05 * e" by (simp add: pos_less_divide_eq)
  then show "p > e * 1.05" by simp
  from * show "\<not> p \<le> e * 1.03" using assms(1) by simp
qed

lemma ManagePosition_cases:
  "ManagePosition s d price = 
    (if entry_price s \<le> 0 then Inr (s, [])
     else let pnl_pct = (price - entry_price s) / entry_price s;
              days_held = (case entry_date s of Some t \<Rightarrow> timedelta_days (Time d) t | None \<Rightarrow> 0) in
       if pnl_pct \<le> - stop_loss_pct s then
               Inr (ResetPosition s, [Liquidate, Log (Sold STOP_LOSS price (pnl_pct * 100) days_held)])
             else if pnl_pct \<ge> take_profit_pct s then
               Inr (ResetPosition s, [Liquidate, Log (Sold TAKE_PROFIT price (pnl_pct * 100) days_held)])
             else if days_held \<ge> max_hold_days s then
               Inr (ResetPosition s, [Liquidate, Log (Sold TIME_STOP price (pnl_pct * 100) days_held)])
             else Inr (s, []))"
  using trailing_dead(2)[of "entry_price s" price]
  by (auto simp: ManagePosition_def py_truediv_def Let_def)

lemma ManagePosition_frame:
  assumes "ManagePosition s d price = Inr (s', effs)"
  shows "trades_this_week s' = trades_this_week s" "last_week s' = last_week s"
    "max_trades_per_week s' = max_trades_per_week s" "upcoming_launch s' = upcoming_launch s"
    "days_to_launch s' = days_to_launch s" "days_since_launch s' = days_since_launch s"
    "last_launch_outcome s' = last_launch_outcome s" "stop_loss_pct s' = stop_loss_pct s"
    "take_profit_pct s' = take_profit_pct s" "max_hold_days s' = max_hold_days s"
    "orders effs = []" "length (exit_reasons effs) \<le> 1" "liquidations effs = length (exit_reasons effs)"
    "TRAILING_STOP \<notin> set (exit_reasons effs)"
  using assms by (auto simp: ManagePosition_cases ResetPosition_def Let_def split: if_splits)

lemma ManagePosition_total: "\<exists>s' effs. ManagePosition s d price = Inr (s', effs)"
  by (simp add: ManagePosition_cases Let_def)

lemma process_launch_events_frame:
  assumes "process_launch_events s l = Inr (s', effs)"
  shows "trades_this_week s' = trades_this_week s" "last_week s' = last_week s"
    "max_trades_per_week s' = max_trades_per_week s" "entry_price s' = entry_price s"
    "entry_date s' = entry_date s" "stop_loss_pct s' = stop_loss_pct s"
    "take_profit_pct s' = take_profit_pct s" "max_hold_days s' = max_hold_days s"
    "orders effs = []" "exit_reasons effs = []" "liquidations effs = 0"
  using assms by (auto simp: process_launch_events_def split: option.splits if_splits)

lemma process_launch_events_total:
  "days_to_launch_readable l \<Longrightarrow> \<exists>s' effs. process_launch_events s l = Inr (s', effs)"
  by (auto simp: process_launch_events_def days_to_launch_readable_def split: option.splits)

lemma process_launch_events_error:
  "process_launch_events s l = Inl e \<Longrightarrow> e = ValueError \<and> \<not> days_to_launch_readable l"
  by (auto simp: process_launch_events_def days_to_launch_readable_def split: option.splits if_splits)

lemma generate_entry_signals_frame:
  assumes "generate_entry_signals s d price = Inr (s', effs)"
  shows "last_week s' = last_week s"
    "max_trades_per_week s' = max_trades_per_week s" "upcoming_launch s' = upcoming_launch s"
    "days_to_launch s' = days_to_launch s" "days_since_launch s' = days_since_launch s"
    "last_launch_outcome s' = last_launch_outcome s" "stop_loss_pct s' = stop_loss_pct s"
    "take_profit_pct s' = take_profit_pct s" "max_hold_days s' = max_hold_days s"
    "exit_reasons effs = []" "liquidations effs = 0"
    "trades_this_week s' = trades_this_week s + int (length (orders effs))"
    "length (orders effs) \<le> 1"
    "orders effs \<noteq> [] \<Longrightarrow> trades_this_week s < max_trades_per_week s"
  using assms by (auto simp: generate_entry_signals_def CalculateSignalScore_def Let_def split: option.splits if_splits sum.splits prod.splits)

lemma generate_entry_signals_total:
  "price \<noteq> 0 \<Longrightarrow> \<exists>s' effs. generate_entry_signals s d price = Inr (s', effs)"
  by (auto simp: generate_entry_signals_def float_truediv_def Let_def split: prod.splits)

subsection \<open>One call of \<^verbatim>\<open>OnData\<close>\<close>

lemma ManagePosition_no_error: "ManagePosition s d price \<noteq> Inl e"
  using ManagePosition_total[of s d price] by auto

lemma generate_entry_signals_no_error:
  "price \<noteq> 0 \<Longrightarrow> generate_entry_signals s d price \<noteq> Inl e"
  using generate_entry_signals_total[of price s d] by auto

lemma increment_days_since_launch_simps [simp]:
  "days_since_launch (increment_days_since_launch s) = days_since_launch s + 1"
  "trades_this_week (increment_days_since_launch s) = trades_this_week s"
  "last_week (increment_days_since_launch s) = last_week s"
  "max_trades_per_week (increment_days_since_launch s) = max_trades_per_week s"
  "entry_price (increment_days_since_launch s) = entry_price s"
  "entry_date (increment_days_since_launch s) = entry_date s"
  "stop_loss_pct (increment_days_since_launch s) = stop_loss_pct s"
  "take_profit_pct (increment_days_since_launch s) = take_profit_pct s"
  "max_hold_days (increment_days_since_launch s) = max_hold_days s"
  "upcoming_launch (increment_days_since_launch s) = upcoming_launch s"
  "days_to_launch (increment_days_since_launch s) = days_to_launch s"
  "last_launch_outcome (increment_days_since_launch s) = last_launch_outcome s"
  by (simp_all add: increment_days_since_launch_def)

lemma reset_weekly_counter_simps [simp]:
  "trades_this_week (reset_weekly_counter s now) =
     (if isocalendar_week now \<noteq> last_week s then 0 else trades_this_week s)"
  "last_week (reset_weekly_counter s now) = isocalendar_week now"
  "max_trades_per_week (reset_weekly_counter s now) = max_trades_per_week s"
  "entry_price (reset_weekly_counter s now) = entry_price s"
  "entry_date (reset_weekly_counter s now) = entry_date s"
  "stop_loss_pct (reset_weekly_counter s now) = stop_loss_pct s"
  "take_profit_pct (reset_weekly_counter s now) = take_profit_pct s"
  "max_hold_days (reset_weekly_counter s now) = max_hold_days s"
  "upcoming_launch (reset_weekly_counter s now) = upcoming_launch s"
  "days_to_launch (reset_weekly_counter s now) = days_to_launch s"
  "days_since_launch (reset_weekly_counter s now) = days_since_launch s"
  "last_launch_outcome (reset_weekly_counter s now) = last_launch_outcome s"
  by (simp_all add: reset_weekly_counter_def Let_def)

lemma OnData_warming: "IsWarmingUp d \<Longrightarrow> OnData s d = Inr (s, [])"
  by (simp add: OnData_def)

lemma OnData_InrE:
  assumes "OnData s d = Inr (s', effs)"
  obtains
    (warming) "IsWarmingUp d" "s' = s" "effs = []"
  | (no_price) s2 where "\<not> IsWarmingUp d"
      "process_launch_events (reset_weekly_counter s (Time d)) (launch d) = Inr (s2, effs)"
      "\<not> has_rklb d \<or> Price d \<le> 0" "s' = increment_days_since_launch s2"
  | (manage) s2 log_launch effs2 where "\<not> IsWarmingUp d"
      "process_launch_events (reset_weekly_counter s (Time d)) (launch d) = Inr (s2, log_launch)"
      "has_rklb d" "0 < Price d" "Invested d"
      "ManagePosition (increment_days_since_launch s2) d (Price d) = Inr (s', effs2)"
      "effs = log_launch @ effs2"
  | (entry) s2 log_launch effs2 where "\<not> IsWarmingUp d"
      "process_launch_events (reset_weekly_counter s (Time d)) (launch d) = Inr (s2, log_launch)"
      "has_rklb d" "0 < Price d" "\<not> Invested d"
      "generate_entry_signals (increment_days_since_launch s2) d (Price d) = Inr (s', effs2)"
      "effs = log_launch @ effs2"
  using assms
  by (auto simp: OnData_def Let_def split: if_splits sum.splits prod.splits)

lemma OnData_total:
  assumes "days_to_launch_readable (launch d)"
  shows "\<exists>s' effs. OnData s d = Inr (s', effs)"
proof -
  obtain s2 lg where 1: "process_launch_events (reset_weekly_counter s (Time d)) (launch d) = Inr (s2, lg)"
    using process_launch_events_total[OF assms] by blast
  obtain s4 e4 where 2: "ManagePosition (increment_days_since_launch s2) d (Price d) = Inr (s4, e4)"
    using ManagePosition_total by blast
  show ?thesis
  proof (cases "0 < Price d")
    case True
    then obtain s5 e5 where 3: "generate_entry_signals (increment_days_since_launch s2) d (Price d) = Inr (s5, e5)"
      using generate_entry_signals_total[of "Price d"] by fastforce
    show ?thesis by (simp add: OnData_def Let_def 1 2 3)
  next
    case False
    then show ?thesis by (simp add: OnData_def Let_def 1 2)
  qed
qed

lemma OnData_error:
  assumes "OnData s d = Inl e"
  shows "e = ValueError \<and> \<not> days_to_launch_readable (launch d)"
proof -
  have "\<not> days_to_launch_readable (launch d)"
    using OnData_total[of d s] assms by auto
  moreover have "e = ValueError"
    using assms
    by (auto simp: OnData_def Let_def ManagePosition_no_error generate_entry_signals_no_error
        split: if_splits sum.splits prod.splits dest: process_launch_events_error) 
  ultimately show ?thesis by simp
qed

lemma OnData_frame:
  assumes "OnData s d = Inr (s', effs)"
  shows "max_trades_per_week s' = max_trades_per_week s \<and>
    stop_loss_pct s' = stop_loss_pct s \<and> take_profit_pct s' = take_profit_pct s \<and>
    max_hold_days s' = max_hold_days s \<and>
    length (exit_reasons effs) \<le> 1 \<and> liquidations effs = length (exit_reasons effs) \<and>
    length (orders effs) \<le> 1 \<and> (orders effs = [] \<or> exit_reasons effs = []) \<and>
    TRAILING_STOP \<notin> set (exit_reasons effs)"
  using assms
proof (cases rule: OnData_InrE)
  case warming
  then show ?thesis by simp
next
  case (no_price s2)
  from process_launch_events_frame[OF no_price(2)] no_price(4) show ?thesis by simp
next
  case (manage s2 log_launch effs2)
  from process_launch_events_frame[OF manage(2)] ManagePosition_frame[OF manage(6)] manage(7)
  show ?thesis by simp
next
  case (entry s2 log_launch effs2)
  from process_launch_events_frame[OF entry(2)] generate_entry_signals_frame[OF entry(6)] entry(7)
  show ?thesis by simp
qed

lemma OnData_trades:
  assumes "OnData s d = Inr (s', effs)" "\<not> IsWarmingUp d"
  shows "last_week s' = isocalendar_week (Time d) \<and>
    trades_this_week s' =
       (if isocalendar_week (Time d) \<noteq> last_week s then 0 else trades_this_week s)
         + int (length (orders effs)) \<and>
    (orders effs \<noteq> [] \<longrightarrow>
       (if isocalendar_week (Time d) \<noteq> last_week s then 0 else trades_this_week s)
         < max_trades_per_week s)"
  using assms(1)
proof (cases rule: OnData_InrE)
  case warming
  then show ?thesis using assms(2) by simp
next
  case (no_price s2)
  from process_launch_events_frame[OF no_price(2)] no_price(4) show ?thesis by simp
next
  case (manage s2 log_launch effs2)
  from process_launch_events_frame[OF manage(2)] ManagePosition_frame[OF manage(6)] manage(7)
  show ?thesis by simp
next
  case (entry s2 log_launch effs2)
  from process_launch_events_frame[OF entry(2)] generate_entry_signals_frame[OF entry(6)] entry(7)
  show ?thesis by (simp split: if_splits)
qed

subsection \<open>Runs\<close>

lemma run_Cons_Inr:
  assumes "run s (d # ds) = Inr (s'', effs)"
  obtains s' effs1 effs2 where "OnData s d = Inr (s', effs1)" "run s' ds = Inr (s'', effs2)"
    "effs = effs1 @ effs2"
  using assms by (auto split: sum.splits prod.splits)

lemma run_no_trailing:
  "run s ds = Inr (s', effs) \<Longrightarrow> TRAILING_STOP \<notin> set (exit_reasons effs)"
proof (induction ds arbitrary: s s' effs)
  case Nil
  then show ?case by simp
next
  case (Cons d ds)
  from Cons.prems obtain s1 effs1 effs2 where
    step: "OnData s d = Inr (s1, effs1)" and rest: "run s1 ds = Inr (s', effs2)"
    and effs: "effs = effs1 @ effs2"
    by (rule run_Cons_Inr)
  from OnData_frame[OF step] Cons.IH[OF rest] effs show ?case by simp
qed

lemmas calendar_defs = midnight_def ymd2ord_def days_before_year_def days_before_month_def
  is_leap_def us_per_day_def us_per_hour_def timedelta_days_def toordinal_def ord2year_def
  isoweek1monday_def isocalendar_week_def Let_def

subsection \<open>Calls made while invested\<close>

lemma exit_in_order_cong:
  assumes "entry_price s1 = entry_price s2" "entry_date s1 = entry_date s2"
    "stop_loss_pct s1 = stop_loss_pct s2" "take_profit_pct s1 = take_profit_pct s2"
    "max_hold_days s1 = max_hold_days s2"
  shows "exit_in_order s1 now price = exit_in_order s2 now price"
  using assms by (simp add: exit_in_order_def pnl_pct_def days_held_def)

lemma ManagePosition_exit_in_order:
  assumes "0 < entry_price s"
  shows "\<exists>s' effs. ManagePosition s d price = Inr (s', effs)
     \<and> exit_reasons effs = exit_in_order s (Time d) price
     \<and> liquidations effs = length (exit_reasons effs)
     \<and> (exit_reasons effs \<noteq> [] \<longrightarrow> s' = ResetPosition s)
     \<and> (exit_reasons effs = [] \<longrightarrow> s' = s \<and> effs = [])"
  using assms trailing_dead(2)[of "entry_price s" price]
  by (auto simp: ManagePosition_cases exit_in_order_def pnl_pct_def days_held_def Let_def)

lemma OnData_invested:
  assumes "\<not> IsWarmingUp d" "days_to_launch_readable (launch d)" "has_rklb d" "0 < Price d"
    "Invested d"
  shows "\<exists>s2 log_launch s' effs2.
      process_launch_events (reset_weekly_counter s (Time d)) (launch d) = Inr (s2, log_launch)
    \<and> ManagePosition (increment_days_since_launch s2) d (Price d) = Inr (s', effs2)
    \<and> OnData s d = Inr (s', log_launch @ effs2)"
proof -
  obtain s2 lg where 1: "process_launch_events (reset_weekly_counter s (Time d)) (launch d) = Inr (s2, lg)"
    using process_launch_events_total[OF assms(2)] by blast
  obtain s4 e4 where 2: "ManagePosition (increment_days_since_launch s2) d (Price d) = Inr (s4, e4)"
    using ManagePosition_total by blast
  from assms 1 2 have "OnData s d = Inr (s4, lg @ e4)"
    by (simp add: OnData_def Let_def)
  with 1 2 show ?thesis by blast
qed

lemma OnData_invested_exits:
  assumes "\<not> IsWarmingUp d" "days_to_launch_readable (launch d)" "has_rklb d" "0 < Price d"
    "Invested d" "0 < entry_price s"
  shows "\<exists>s' effs. OnData s d = Inr (s', effs)
     \<and> exit_reasons effs = exit_in_order s (Time d) (Price d)
     \<and> liquidations effs = length (exit_reasons effs)
     \<and> orders effs = []
     \<and> (exit_reasons effs \<noteq> [] \<longrightarrow> entry_price s' = 0 \<and> entry_date s' = None)
     \<and> (exit_reasons effs = [] \<longrightarrow> entry_price s' = entry_price s \<and> entry_date s' = entry_date s)"
proof -
  from OnData_invested[OF assms(1-5), of s] obtain s2 lg s' effs2 where
    1: "process_launch_events (reset_weekly_counter s (Time d)) (launch d) = Inr (s2, lg)"
    and 2: "ManagePosition (increment_days_since_launch s2) d (Price d) = Inr (s', effs2)"
    and 3: "OnData s d = Inr (s', lg @ effs2)" by blast
  let ?s3 = "increment_days_since_launch s2"
  note f = process_launch_events_frame[OF 1]
  have pos: "0 < entry_price ?s3" using f assms(6) by simp
  have eq: "exit_in_order ?s3 (Time d) (Price d) = exit_in_order s (Time d) (Price d)"
    by (rule exit_in_order_cong) (simp_all add: f)
  from ManagePosition_exit_in_order[OF pos, of d "Price d"] 2
  have m: "exit_reasons effs2 = exit_in_order ?s3 (Time d) (Price d)"
    "liquidations effs2 = length (exit_reasons effs2)"
    "exit_reasons effs2 \<noteq> [] \<longrightarrow> s' = ResetPosition ?s3"
    "exit_reasons effs2 = [] \<longrightarrow> s' = ?s3 \<and> effs2 = []"
    by auto
  from ManagePosition_frame[OF 2] have o: "orders effs2 = []" by simp
  show ?thesis using 3 m o eq f by (auto simp: ResetPosition_def)
qed

subsection \<open>The scorer\<close>

lemma add_point_collect:
  "add_point c r (int (length (filter fst ps)), map snd (filter fst ps))
     = (int (length (filter fst (ps @ [(c, r)]))), map snd (filter fst (ps @ [(c, r)])))"
  by (simp add: add_point_def)

lemma CalculateSignalScore_collect:
  "CalculateSignalScore s d price =
     (let hits = filter fst (seven_predicates s d price);
          score = int (length hits);
          reasons = map snd hits
      in (score, reasons, if score \<ge> 3 then [Log (SIGNAL_SCORE score reasons)] else []))"
proof -
  have base: "(0::int, []::reason list)
      = (int (length (filter fst ([]::(bool \<times> reason) list))), map snd (filter fst []))"
    by simp
  show ?thesis
    unfolding CalculateSignalScore_def Let_def base add_point_collect fst_conv snd_conv
      seven_predicates_def
    by (simp only: append.simps)
qed

lemma length_seven_predicates: "length (seven_predicates s d price) = 7"
  by (simp add: seven_predicates_def)

lemma CalculateSignalScore_range:
  "0 \<le> fst (CalculateSignalScore s d price) \<and> fst (CalculateSignalScore s d price) \<le> 7"
proof -
  have "length (filter fst (seven_predicates s d price)) \<le> 7"
    using length_filter_le[of fst "seven_predicates s d price"]
    by (simp only: length_seven_predicates)
  then show ?thesis by (simp add: CalculateSignalScore_collect Let_def)
qed

subsection \<open>The launch counters\<close>

lemma process_launch_events_tracker:
  assumes "process_launch_events s l = Inr (s2, lg)"
  shows "days_since_launch s2 =
           (case l of Some r \<Rightarrow> if Value r \<noteq> 1 \<and> Value r = 2 then 0 else days_since_launch s
            | None \<Rightarrow> days_since_launch s)"
    "upcoming_launch s2 =
           (case l of Some r \<Rightarrow> if Value r = 1 then True else if Value r = 2 then False
                                  else upcoming_launch s
            | None \<Rightarrow> upcoming_launch s)"
    "last_launch_outcome s2 =
           (case l of Some r \<Rightarrow> if Value r \<noteq> 1 \<and> Value r = 2 then Some (Outcome r)
                                  else last_launch_outcome s
            | None \<Rightarrow> last_launch_outcome s)"
  using assms by (auto simp: process_launch_events_def split: option.splits if_splits)

lemma OnData_tracker:
  assumes "OnData s d = Inr (s', effs)" "\<not> IsWarmingUp d"
  shows "days_since_launch s' =
           (case launch d of Some r \<Rightarrow> if Value r = 2 then 1 else days_since_launch s + 1
            | None \<Rightarrow> days_since_launch s + 1)
       \<and> upcoming_launch s' =
           (case launch d of Some r \<Rightarrow> if Value r = 1 then True else if Value r = 2 then False
                                  else upcoming_launch s
            | None \<Rightarrow> upcoming_launch s)
       \<and> last_launch_outcome s' =
           (case launch d of Some r \<Rightarrow> if Value r = 2 then Some (Outcome r)
                                  else last_launch_outcome s
            | None \<Rightarrow> last_launch_outcome s)"
  using assms(1)
proof (cases rule: OnData_InrE)
  case warming
  then show ?thesis using assms(2) by simp
next
  case (no_price s2)
  from process_launch_events_tracker[OF no_price(2)] no_price(4) show ?thesis
    by (simp split: option.splits)
next
  case (manage s2 log_launch effs2)
  from process_launch_events_tracker[OF manage(2)] ManagePosition_frame[OF manage(6)]
  show ?thesis by (simp split: option.splits)
next
  case (entry s2 log_launch effs2)
  from process_launch_events_tracker[OF entry(2)] generate_entry_signals_frame[OF entry(6)]
  show ?thesis by (simp split: option.splits)
qed

lemma run_total:
  "\<forall>d\<in>set ds. days_to_launch_readable (launch d) \<Longrightarrow> \<exists>s' effs. run s ds = Inr (s', effs)"
proof (induction ds arbitrary: s)
  case Nil
  then show ?case by simp
next
  case (Cons d ds)
  from Cons.prems have "days_to_launch_readable (launch d)" by simp
  from OnData_total[OF this, of s] obtain s1 e1 where 1: "OnData s d = Inr (s1, e1)" by blast
  from Cons.prems Cons.IH[of s1] obtain s2 e2 where 2: "run s1 ds = Inr (s2, e2)" by auto
  from 1 2 show ?case by simp
qed

lemma run_quiet_days_since_launch:
  assumes "\<forall>d\<in>set ds. \<not> IsWarmingUp d \<and> launch d = None"
  shows "\<exists>s' effs. run s ds = Inr (s', effs)
           \<and> days_since_launch s' = days_since_launch s + int (length ds)"
  using assms
proof (induction ds arbitrary: s)
  case Nil
  then show ?case by simp
next
  case (Cons d ds)
  from Cons.prems have d: "\<not> IsWarmingUp d" "launch d = None" by simp_all
  then have "days_to_launch_readable (launch d)" by (simp add: days_to_launch_readable_def)
  from OnData_total[OF this, of s] obtain s1 e1 where 1: "OnData s d = Inr (s1, e1)" by blast
  from OnData_tracker[OF 1 d(1)] d(2) have 2: "days_since_launch s1 = days_since_launch s + 1"
    by simp
  from Cons.prems Cons.IH[of s1] obtain s2 e2 where
    3: "run s1 ds = Inr (s2, e2)" "days_since_launch s2 = days_since_launch s1 + int (length ds)"
    by auto
  from 1 2 3 show ?case by simp
qed

subsection \<open>Launch records made by the reader\<close>

lemma signal_reasons_simps [simp]:
  "signal_reasons [] = []"
  "signal_reasons (e # effs) = logged_reasons e @ signal_reasons effs"
  "signal_reasons (xs @ ys) = signal_reasons xs @ signal_reasons ys"
  by (simp_all add: signal_reasons_def)

lemma Reader_Value:
  assumes "Reader config_Symbol line = Some l"
  shows "Value l = 2" "DaysToLaunch l = ''0''"
  using assms by (auto simp: Reader_def Let_def split: if_splits option.splits)

lemma filter_map_snd_filter_fst:
  "filter Q (map snd (filter fst P)) = map snd (filter (\<lambda>x. fst x \<and> Q (snd x)) P)"
  by (induction P) auto

lemma CalculateSignalScore_no_launch_reason:
  assumes "\<not> upcoming_launch s"
  shows "filter is_launch_reason (fst (snd (CalculateSignalScore s d price))) = []"
  using assms
  by (simp add: CalculateSignalScore_collect Let_def filter_map_snd_filter_fst seven_predicates_def)

lemma filter_fst_without_sixth:
  assumes "length P = 7" "\<not> fst (P ! 5)"
  shows "filter fst P = filter fst (take 5 P @ drop 6 P)"
proof -
  have "P = take 5 P @ P ! 5 # drop 6 P"
    using id_take_nth_drop[of 5 P] assms(1) by simp
  then have "filter fst P = filter fst (take 5 P @ P ! 5 # drop 6 P)" by simp
  also have "\<dots> = filter fst (take 5 P @ drop 6 P)" using assms(2) by simp
  finally show ?thesis .
qed

lemma process_launch_events_signal_reasons:
  "process_launch_events s l = Inr (s', effs) \<Longrightarrow> signal_reasons effs = []"
  by (auto simp: process_launch_events_def split: option.splits if_splits)

lemma ManagePosition_signal_reasons:
  "ManagePosition s d price = Inr (s', effs) \<Longrightarrow> signal_reasons effs = []"
  by (auto simp: ManagePosition_cases Let_def split: if_splits)

lemma generate_entry_signals_signal_reasons:
  assumes "generate_entry_signals s d price = Inr (s', effs)" "\<not> upcoming_launch s"
  shows "filter is_launch_reason (signal_reasons effs) = []"
proof -
  obtain sc rs lg where c: "CalculateSignalScore s d price = (sc, rs, lg)"
    by (cases "CalculateSignalScore s d price") auto
  from CalculateSignalScore_no_launch_reason[OF assms(2), of d price] c
  have rs: "filter is_launch_reason rs = []" by simp
  from CalculateSignalScore_collect[of s d price] c
  have lg: "lg = (if sc \<ge> 3 then [Log (SIGNAL_SCORE sc rs)] else [])"
    by (simp add: Let_def)
  from assms(1) c lg rs show ?thesis
    by (auto simp: generate_entry_signals_def Let_def split: if_splits sum.splits)
qed

lemma OnData_no_launch_reason:
  assumes "OnData s d = Inr (s', effs)" "\<not> upcoming_launch s"
    "\<forall>l. launch d = Some l \<longrightarrow> Value l \<noteq> 1"
  shows "\<not> upcoming_launch s' \<and> filter is_launch_reason (signal_reasons effs) = []"
  using assms(1)
proof (cases rule: OnData_InrE)
  case warming
  then show ?thesis using assms(2) by simp
next
  case (no_price s2)
  from process_launch_events_tracker(2)[OF no_price(2)] process_launch_events_signal_reasons[OF no_price(2)]
    no_price(4) assms(2,3)
  show ?thesis by (auto split: option.splits)
next
  case (manage s2 log_launch effs2)
  from process_launch_events_tracker(2)[OF manage(2)] process_launch_events_signal_reasons[OF manage(2)]
    ManagePosition_frame(4)[OF manage(6)] ManagePosition_signal_reasons[OF manage(6)]
    manage(7) assms(2,3)
  show ?thesis by (auto split: option.splits)
next
  case (entry s2 log_launch effs2)
  from process_launch_events_tracker(2)[OF entry(2)] assms(2,3)
  have u: "\<not> upcoming_launch (increment_days_since_launch s2)"
    by (auto split: option.splits)
  from generate_entry_signals_signal_reasons[OF entry(6) u] generate_entry_signals_frame(3)[OF entry(6)]
    process_launch_events_signal_reasons[OF entry(2)] entry(7) u
  show ?thesis by simp
qed

lemma run_no_launch_reason:
  assumes "run s ds = Inr (s', effs)" "\<not> upcoming_launch s"
    "\<forall>d\<in>set ds. \<forall>l. launch d = Some l \<longrightarrow> Value l \<noteq> 1"
  shows "\<not> upcoming_launch s' \<and> filter is_launch_reason (signal_reasons effs) = []"
  using assms
proof (induction ds arbitrary: s s' effs)
  case Nil
  then show ?case by simp
next
  case (Cons d ds)
  from Cons.prems(1) obtain s1 effs1 effs2 where
    step: "OnData s d = Inr (s1, effs1)" and rest: "run s1 ds = Inr (s', effs2)"
    and effs: "effs = effs1 @ effs2"
    by (rule run_Cons_Inr)
  from Cons.prems(3) have d: "\<forall>l. launch d = Some l \<longrightarrow> Value l \<noteq> 1"
    and ds: "\<forall>d\<in>set ds. \<forall>l. launch d = Some l \<longrightarrow> Value l \<noteq> 1" by simp_all
  from OnData_no_launch_reason[OF step Cons.prems(2) d]
  have 1: "\<not> upcoming_launch s1" "filter is_launch_reason (signal_reasons effs1) = []" by simp_all
  from Cons.IH[OF rest 1(1) ds] 1(2) effs show ?case by simp
qed

subsection \<open>Invalid prices\<close>

lemma ManagePosition_invalid_entry:
  "entry_price s \<le> 0 \<Longrightarrow> ManagePosition s d price = Inr (s, [])"
  by (simp add: ManagePosition_def)

lemma OnData_no_op:
  assumes "days_to_launch_readable (launch d)"
    "Price d \<le> 0 \<or> (Invested d \<and> entry_price s \<le> 0)"
  shows "\<exists>s' effs. OnData s d = Inr (s', effs) \<and> orders effs = [] \<and> exit_reasons effs = []
     \<and> liquidations effs = 0 \<and> entry_price s' = entry_price s \<and> entry_date s' = entry_date s"
proof -
  from OnData_total[OF assms(1), of s] obtain s' effs where r: "OnData s d = Inr (s', effs)"
    by blast
  from r have "orders effs = [] \<and> exit_reasons effs = []
     \<and> liquidations effs = 0 \<and> entry_price s' = entry_price s \<and> entry_date s' = entry_date s"
  proof (cases rule: OnData_InrE)
    case warming
    then show ?thesis by simp
  next
    case (no_price s2)
    from process_launch_events_frame[OF no_price(2)] no_price(4) show ?thesis by simp
  next
    case (manage s2 log_launch effs2)
    note f = process_launch_events_frame[OF manage(2)]
    from manage(4) assms(2) have "entry_price s \<le> 0" by auto
    then have "entry_price (increment_days_since_launch s2) \<le> 0" using f by simp
    from ManagePosition_invalid_entry[OF this, of d "Price d"] manage(6)
    have "s' = increment_days_since_launch s2" "effs2 = []" by simp_all
    with f manage(7) show ?thesis by simp
  next
    case (entry s2 log_launch effs2)
    with assms(2) show ?thesis by auto
  qed
  with r show ?thesis by blast
qed

subsection \<open>Calls made while flat\<close>

lemma generate_entry_signals_entry:
  assumes "0 < price" "trades_this_week s < max_trades_per_week s"
    "rsi_IsReady d" "macd_IsReady d" "sma_fast_IsReady d" "sma_slow_IsReady d"
  shows "\<exists>s' effs. generate_entry_signals s d price = Inr (s', effs)
     \<and> exit_reasons effs = [] \<and> liquidations effs = 0
     \<and> (if fst (CalculateSignalScore s d price) \<ge> 3
           \<and> py_int_of_float (round_double (float_mul (Cash d) (round_double 0.95) / price)) > 0
         then orders effs
                = [py_int_of_float (round_double (float_mul (Cash d) (round_double 0.95) / price))]
            \<and> s' = s\<lparr>entry_price := price, entry_date := Some (Time d),
                      trades_this_week := trades_this_week s + 1\<rparr>
         else orders effs = [] \<and> s' = s)"
proof -
  obtain sc rs lg where c: "CalculateSignalScore s d price = (sc, rs, lg)"
    by (cases "CalculateSignalScore s d price") auto
  from CalculateSignalScore_collect[of s d price] c
  have lg: "lg = (if sc \<ge> 3 then [Log (SIGNAL_SCORE sc rs)] else [])"
    by (simp add: Let_def)
  from assms c lg show ?thesis
    by (auto simp: generate_entry_signals_def float_truediv_def Let_def)
qed

lemma OnData_flat:
  assumes "\<not> IsWarmingUp d" "days_to_launch_readable (launch d)" "has_rklb d" "0 < Price d"
    "\<not> Invested d"
  shows "\<exists>s2 log_launch s' effs2.
      process_launch_events (reset_weekly_counter s (Time d)) (launch d) = Inr (s2, log_launch)
    \<and> generate_entry_signals (increment_days_since_launch s2) d (Price d) = Inr (s', effs2)
    \<and> OnData s d = Inr (s', log_launch @ effs2)"
proof -
  obtain s2 lg where 1: "process_launch_events (reset_weekly_counter s (Time d)) (launch d) = Inr (s2, lg)"
    using process_launch_events_total[OF assms(2)] by blast
  from assms(4) obtain s4 e4 where
    2: "generate_entry_signals (increment_days_since_launch s2) d (Price d) = Inr (s4, e4)"
    using generate_entry_signals_total[of "Price d"] by fastforce
  from assms 1 2 have "OnData s d = Inr (s4, lg @ e4)"
    by (simp add: OnData_def Let_def)
  with 1 2 show ?thesis by blast
qed

lemma seven_predicates_tracker_cong:
  assumes "upcoming_launch s' = upcoming_launch s" "days_to_launch s' = days_to_launch s"
    "days_since_launch s' = days_since_launch s" "last_launch_outcome s' = last_launch_outcome s"
  shows "seven_predicates s' d price = seven_predicates s d price"
  using assms by (simp add: seven_predicates_def)

subsection \<open>Held positions and the time stop\<close>

lemma held_in_band_cong:
  assumes "entry_price s' = entry_price s" "stop_loss_pct s' = stop_loss_pct s"
    "take_profit_pct s' = take_profit_pct s"
  shows "held_in_band s' d = held_in_band s d"
  using assms by (simp add: held_in_band_def pnl_pct_def)

lemma OnData_held_in_band:
  assumes "held_in_band s d"
  shows "\<exists>s' effs. OnData s d = Inr (s', effs)
     \<and> orders effs = []
     \<and> stop_loss_pct s' = stop_loss_pct s \<and> take_profit_pct s' = take_profit_pct s
     \<and> max_hold_days s' = max_hold_days s
     \<and> (if days_held s (Time d) \<ge> max_hold_days s
         then exit_reasons effs = [TIME_STOP] \<and> liquidations effs = 1
            \<and> entry_price s' = 0 \<and> entry_date s' = None
         else exit_reasons effs = [] \<and> liquidations effs = 0
            \<and> entry_price s' = entry_price s \<and> entry_date s' = entry_date s)"
proof -
  from assms have h: "\<not> IsWarmingUp d" "days_to_launch_readable (launch d)" "has_rklb d"
    "0 < Price d" "Invested d" "0 < entry_price s"
    and band: "- stop_loss_pct s < pnl_pct s (Price d)" "pnl_pct s (Price d) < take_profit_pct s"
    by (simp_all add: held_in_band_def)
  from OnData_invested_exits[OF h, of ] obtain s' effs where
    r: "OnData s d = Inr (s', effs)"
    and e: "exit_reasons effs = exit_in_order s (Time d) (Price d)"
      "liquidations effs = length (exit_reasons effs)" "orders effs = []"
      "exit_reasons effs \<noteq> [] \<longrightarrow> entry_price s' = 0 \<and> entry_date s' = None"
      "exit_reasons effs = [] \<longrightarrow> entry_price s' = entry_price s \<and> entry_date s' = entry_date s"
    by blast
  have x: "exit_in_order s (Time d) (Price d)
      = (if days_held s (Time d) \<ge> max_hold_days s then [TIME_STOP] else [])"
    using band trailing_dead(2)[of "entry_price s" "Price d"] h(6)
    by (auto simp: exit_in_order_def pnl_pct_def)
  from OnData_frame[OF r] have f: "stop_loss_pct s' = stop_loss_pct s"
    "take_profit_pct s' = take_profit_pct s" "max_hold_days s' = max_hold_days s" by simp_all
  from r e x f show ?thesis by (auto split: if_splits)
qed

lemma run_held_before_time_stop:
  assumes "\<forall>x\<in>set ds. held_in_band s x \<and> days_held s (Time x) < max_hold_days s"
  shows "\<exists>s' effs. run s ds = Inr (s', effs)
     \<and> exit_reasons effs = [] \<and> liquidations effs = 0 \<and> orders effs = []
     \<and> entry_price s' = entry_price s \<and> entry_date s' = entry_date s
     \<and> stop_loss_pct s' = stop_loss_pct s \<and> take_profit_pct s' = take_profit_pct s
     \<and> max_hold_days s' = max_hold_days s"
  using assms
proof (induction ds arbitrary: s)
  case Nil
  then show ?case by simp
next
  case (Cons d ds)
  from Cons.prems have d: "held_in_band s d" "days_held s (Time d) < max_hold_days s" by simp_all
  from OnData_held_in_band[OF d(1)] d(2) obtain s1 e1 where
    1: "OnData s d = Inr (s1, e1)" "orders e1 = []" "exit_reasons e1 = []" "liquidations e1 = 0"
      "entry_price s1 = entry_price s" "entry_date s1 = entry_date s"
      "stop_loss_pct s1 = stop_loss_pct s" "take_profit_pct s1 = take_profit_pct s"
      "max_hold_days s1 = max_hold_days s"
    by (auto split: if_splits)
  have "\<forall>x\<in>set ds. held_in_band s1 x \<and> days_held s1 (Time x) < max_hold_days s1"
    using Cons.prems held_in_band_cong[OF 1(5) 1(7) 1(8)] 1(6) 1(9)
    by (simp add: days_held_def)
  from Cons.IH[OF this] obtain s2 e2 where
    2: "run s1 ds = Inr (s2, e2)" "exit_reasons e2 = []" "liquidations e2 = 0" "orders e2 = []"
      "entry_price s2 = entry_price s1" "entry_date s2 = entry_date s1"
      "stop_loss_pct s2 = stop_loss_pct s1" "take_profit_pct s2 = take_profit_pct s1"
      "max_hold_days s2 = max_hold_days s1"
    by blast
  from 1 2 show ?case by simp
qed

lemma run_append:
  "run s (xs @ ys) =
     (case run s xs of
        Inl e \<Rightarrow> Inl e
      | Inr (s1, effs1) \<Rightarrow>
          (case run s1 ys of
             Inl e \<Rightarrow> Inl e
           | Inr (s2, effs2) \<Rightarrow> Inr (s2, effs1 @ effs2)))"
  by (induction xs arbitrary: s) (auto split: sum.splits prod.splits)

text \<open>
  While a position is held and \<open>pnl_pct\<close> stays strictly between \<open>- stop_loss_pct\<close> and
  \<open>take_profit_pct\<close>, a step exits with \<open>TIME_STOP\<close> if and only if
  \<open>days_held \<ge> max_hold_days\<close>, where \<open>days_held\<close> is \<^verbatim>\<open>(self.Time - self.entry_date).days\<close>, the
  whole days elapsed between the two timestamps: elapsed days of the clock, not bars seen.
\<close>

lemma time_stop_at_elapsed_days:
  "(held_in_band s d \<longrightarrow>
      (\<exists>s' effs. OnData s d = Inr (s', effs)
         \<and> (if days_held s (Time d) \<ge> max_hold_days s
             then exit_reasons effs = [TIME_STOP] \<and> liquidations effs = 1
                \<and> entry_price s' = 0 \<and> entry_date s' = None
             else exit_reasons effs = [] \<and> liquidations effs = 0
                \<and> entry_price s' = entry_price s \<and> entry_date s' = entry_date s)))
   \<and> ((\<forall>x\<in>set ds. held_in_band s x \<and> days_held s (Time x) < max_hold_days s)
        \<and> held_in_band s d \<and> days_held s (Time d) \<ge> max_hold_days s \<longrightarrow>
      (\<exists>s1 effs1 s' effs.
          run s ds = Inr (s1, effs1) \<and> exit_reasons effs1 = [] \<and> liquidations effs1 = 0
        \<and> entry_price s1 = entry_price s \<and> entry_date s1 = entry_date s
        \<and> OnData s1 d = Inr (s', effs) \<and> exit_reasons effs = [TIME_STOP] \<and> liquidations effs = 1
        \<and> entry_price s' = 0 \<and> entry_date s' = None
        \<and> run s (ds @ [d]) = Inr (s', effs1 @ effs)))
   \<and> days_held s now = (case entry_date s of Some t \<Rightarrow> (now - t) div 86400000000 | None \<Rightarrow> 0)
   \<and> max_hold_days Initialize = 10 \<and> stop_loss_pct Initialize = 0.05
   \<and> take_profit_pct Initialize = 0.10"
proof (intro conjI impI)
  assume "held_in_band s d"
  from OnData_held_in_band[OF this]
  show "\<exists>s' effs. OnData s d = Inr (s', effs)
         \<and> (if days_held s (Time d) \<ge> max_hold_days s
             then exit_reasons effs = [TIME_STOP] \<and> liquidations effs = 1
                \<and> entry_price s' = 0 \<and> entry_date s' = None
             else exit_reasons effs = [] \<and> liquidations effs = 0
                \<and> entry_price s' = entry_price s \<and> entry_date s' = entry_date s)"
    by blast
next
  assume h: "(\<forall>x\<in>set ds. held_in_band s x \<and> days_held s (Time x) < max_hold_days s)
        \<and> held_in_band s d \<and> days_held s (Time d) \<ge> max_hold_days s"
  then have before: "\<forall>x\<in>set ds. held_in_band s x \<and> days_held s (Time x) < max_hold_days s"
    by simp
  from run_held_before_time_stop[OF before] obtain s1 e1 where
    1: "run s ds = Inr (s1, e1)" "exit_reasons e1 = []" "liquidations e1 = 0"
      "entry_price s1 = entry_price s" "entry_date s1 = entry_date s"
      "stop_loss_pct s1 = stop_loss_pct s" "take_profit_pct s1 = take_profit_pct s"
      "max_hold_days s1 = max_hold_days s"
    by blast
  from h held_in_band_cong[OF 1(4) 1(6) 1(7)] have b: "held_in_band s1 d" by simp
  from h 1(5) 1(8) have t: "days_held s1 (Time d) \<ge> max_hold_days s1"
    by (simp add: days_held_def)
  from OnData_held_in_band[OF b] t obtain s' effs where
    2: "OnData s1 d = Inr (s', effs)" "exit_reasons effs = [TIME_STOP]" "liquidations effs = 1"
      "entry_price s' = 0" "entry_date s' = None"
    by (auto split: if_splits)
  from 1(1) 2(1) have 3: "run s (ds @ [d]) = Inr (s', e1 @ effs)"
    by (simp add: run_append)
  from 1 2 3 show "\<exists>s1 effs1 s' effs.
          run s ds = Inr (s1, effs1) \<and> exit_reasons effs1 = [] \<and> liquidations effs1 = 0
        \<and> entry_price s1 = entry_price s \<and> entry_date s1 = entry_date s
        \<and> OnData s1 d = Inr (s', effs) \<and> exit_reasons effs = [TIME_STOP] \<and> liquidations effs = 1
        \<and> entry_price s' = 0 \<and> entry_date s' = None
        \<and> run s (ds @ [d]) = Inr (s', effs1 @ effs)"
    by blast
next
  show "days_held s now = (case entry_date s of Some t \<Rightarrow> (now - t) div 86400000000 | None \<Rightarrow> 0)"
    by (simp add: days_held_def timedelta_days_def us_per_day_def split: option.splits)
  show "max_hold_days Initialize = 10" "stop_loss_pct Initialize = 0.05"
    "take_profit_pct Initialize = 0.10"
    by (simp_all add: Initialize_def)
qed

subsection \<open>The weekly count\<close>

lemma OnData_cap:
  assumes "OnData s d = Inr (s', effs)" "0 \<le> trades_this_week s"
    "trades_this_week s \<le> max_trades_per_week s"
  shows "0 \<le> trades_this_week s' \<and> trades_this_week s' \<le> max_trades_per_week s'
     \<and> max_trades_per_week s' = max_trades_per_week s"
proof (cases "IsWarmingUp d")
  case True
  with assms show ?thesis by (simp add: OnData_warming)
next
  case False
  from OnData_trades[OF assms(1) False] OnData_frame[OF assms(1)] assms(2,3)
  show ?thesis by (cases "orders effs = []") (auto split: if_splits)
qed

lemma run_cap:
  assumes "run s ds = Inr (s', effs)" "0 \<le> trades_this_week s"
    "trades_this_week s \<le> max_trades_per_week s"
  shows "0 \<le> trades_this_week s' \<and> trades_this_week s' \<le> max_trades_per_week s'
     \<and> max_trades_per_week s' = max_trades_per_week s"
  using assms
proof (induction ds arbitrary: s s' effs)
  case Nil
  then show ?case by simp
next
  case (Cons d ds)
  from Cons.prems(1) obtain s1 effs1 effs2 where
    step: "OnData s d = Inr (s1, effs1)" and rest: "run s1 ds = Inr (s', effs2)"
    by (rule run_Cons_Inr)
  from OnData_cap[OF step Cons.prems(2,3)]
  have 1: "0 \<le> trades_this_week s1" "trades_this_week s1 \<le> max_trades_per_week s1"
    "max_trades_per_week s1 = max_trades_per_week s" by simp_all
  from Cons.IH[OF rest 1(1,2)] 1(3) show ?case by simp
qed

lemma run_same_week_counts:
  assumes "run s ds = Inr (s', effs)" "\<forall>x\<in>set ds. isocalendar_week (Time x) = last_week s"
  shows "last_week s' = last_week s
     \<and> trades_this_week s' = trades_this_week s + int (length (orders effs))"
  using assms
proof (induction ds arbitrary: s s' effs)
  case Nil
  then show ?case by simp
next
  case (Cons d ds)
  from Cons.prems(1) obtain s1 effs1 effs2 where
    step: "OnData s d = Inr (s1, effs1)" and rest: "run s1 ds = Inr (s', effs2)"
    and effs: "effs = effs1 @ effs2"
    by (rule run_Cons_Inr)
  from Cons.prems(2) have wd: "isocalendar_week (Time d) = last_week s" by simp
  have 1: "last_week s1 = last_week s
     \<and> trades_this_week s1 = trades_this_week s + int (length (orders effs1))"
  proof (cases "IsWarmingUp d")
    case True
    with step show ?thesis by (simp add: OnData_warming)
  next
    case False
    from OnData_trades[OF step False] wd show ?thesis by simp
  qed
  with Cons.prems(2) have "\<forall>x\<in>set ds. isocalendar_week (Time x) = last_week s1" by simp
  from Cons.IH[OF rest this] 1 effs show ?case by simp
qed

lemma run_one_week_orders:
  assumes "run s ds = Inr (s', effs)" "\<forall>x\<in>set ds. isocalendar_week (Time x) = w"
    "0 \<le> trades_this_week s" "trades_this_week s \<le> max_trades_per_week s"
  shows "int (length (orders effs)) \<le> max_trades_per_week s"
  using assms
proof (induction ds arbitrary: s s' effs)
  case Nil
  then show ?case by simp
next
  case (Cons d ds)
  from Cons.prems(1) obtain s1 effs1 effs2 where
    step: "OnData s d = Inr (s1, effs1)" and rest: "run s1 ds = Inr (s', effs2)"
    and effs: "effs = effs1 @ effs2"
    by (rule run_Cons_Inr)
  from Cons.prems(2) have wd: "isocalendar_week (Time d) = w"
    and wds: "\<forall>x\<in>set ds. isocalendar_week (Time x) = w" by simp_all
  show ?case
  proof (cases "IsWarmingUp d")
    case True
    with step have "s1 = s" "effs1 = []" by (simp_all add: OnData_warming)
    with Cons.IH[OF rest wds] Cons.prems(3,4) effs show ?thesis by simp
  next
    case False
    note t = OnData_trades[OF step False]
    from t wd wds have "\<forall>x\<in>set ds. isocalendar_week (Time x) = last_week s1" by simp
    from run_same_week_counts[OF rest this]
    have 2: "trades_this_week s' = trades_this_week s1 + int (length (orders effs2))" by simp
    from run_cap[OF Cons.prems(1,3,4)]
    have 3: "trades_this_week s' \<le> max_trades_per_week s" by simp
    from t 2 3 Cons.prems(3) effs show ?thesis by (auto split: if_splits)
  qed
qed

section \<open>The claims\<close>

text \<open>
  Claim C2. For every open position with a positive entry price and every current price,
  the trailing-stop branch of \<^verbatim>\<open>ManagePosition\<close> never liquidates: it is entered only when
  \<open>pnl_pct > 0.05\<close>, which puts the price above \<open>entry_price * 1.05\<close>, itself above
  \<open>entry_price * 1.03\<close>, so \<open>price \<le> entry_price * 1.03\<close> is false there. Hence no call of
  \<^verbatim>\<open>ManagePosition\<close>, no call of \<^verbatim>\<open>OnData\<close> and no run, from any state and on any
  inputs, logs a \<open>TRAILING_STOP\<close> exit.
\<close>

theorem trailing_stop_never_fires:
  "(0 < entry_price s \<and> 0.05 < (price - entry_price s) / entry_price s
      \<longrightarrow> entry_price s * 1.03 < entry_price s * 1.05 \<and> entry_price s * 1.05 < price
          \<and> \<not> price \<le> entry_price s * 1.03)
   \<and> (\<forall>s' effs. ManagePosition s d price = Inr (s', effs)
         \<longrightarrow> TRAILING_STOP \<notin> set (exit_reasons effs))
   \<and> (\<forall>s' effs. OnData s d = Inr (s', effs) \<longrightarrow> TRAILING_STOP \<notin> set (exit_reasons effs))
   \<and> (\<forall>s' effs. run s ds = Inr (s', effs) \<longrightarrow> TRAILING_STOP \<notin> set (exit_reasons effs))"
  using trailing_dead[of "entry_price s" price] ManagePosition_frame(14)[of s d price]
    OnData_frame[of s d] run_no_trailing[of s ds]
  by auto

theorem trailing_stop_never_fires_witness:
  "0 < entry_price (held_at 100 (midnight 2024 1 8))
   \<and> 0.05 < (106 - entry_price (held_at 100 (midnight 2024 1 8))) / entry_price (held_at 100 (midnight 2024 1 8))
   \<and> \<not> 106 \<le> entry_price (held_at 100 (midnight 2024 1 8)) * 1.03
   \<and> ManagePosition (held_at 100 (midnight 2024 1 8)) (quiet_bar (midnight 2024 1 9) 106 True) 106
       = Inr (held_at 100 (midnight 2024 1 8), [])
   \<and> TRAILING_STOP \<notin> set (exit_reasons [])"
  using trailing_stop_never_fires[of "held_at 100 (midnight 2024 1 8)" 106
      "quiet_bar (midnight 2024 1 9) 106 True" "[]"]
  by (simp add: held_at_def Initialize_def quiet_bar_def ManagePosition_def py_truediv_def calendar_defs)

text \<open>
  Claim C1 (the trailing-stop scenario of the specification), evaluated on the code. A
  position is entered at 100 from the initial state (nine shares from 1000 in cash); the
  next bar shows 106 and the bar after it 102. The claim expects a \<open>TRAILING_STOP\<close> exit
  on the third bar. The code logs no exit and issues no liquidation on either bar: the
  position is still held at 100 after the run. At 106 the trailing floor 103 is below the
  price; at 102 the gain is 2 percent, so the trailing-stop branch is not entered, and
  nothing of the bar at 106 was remembered.
\<close>

theorem trailing_stop_scenario_keeps_position:
  "run Initialize
     [signal_bar (midnight 2024 1 8) 100 1000,
      quiet_bar (midnight 2024 1 9) 106 True,
      quiet_bar (midnight 2024 1 10) 102 True]
     = Inr (Initialize\<lparr>entry_price := 100, entry_date := Some (midnight 2024 1 8),
                       trades_this_week := 1, last_week := 2, days_since_launch := 1002\<rparr>,
            [Log (SIGNAL_SCORE 4 [RSI_oversold_recovery 38, MACD_bullish 0.2, SMA_uptrend 11 10,
                                  Price_above_SMA20]),
             MarketOrder 9,
             Log (BUY 9 100 4 38 0.5)])
   \<and> ManagePosition (held_at 100 (midnight 2024 1 8)) (quiet_bar (midnight 2024 1 10) 102 True) 102
       = Inr (held_at 100 (midnight 2024 1 8), [])"
  by code_simp

text \<open>
  Claim C5. Exit evaluation checks stop-loss, take-profit, time-stop and trailing-stop in
  this fixed order and the first trigger that holds is the step's only exit: with a positive
  entry price, the exits \<^verbatim>\<open>ManagePosition\<close> logs are exactly \<open>exit_in_order\<close>, which is at
  most one reason, with as many liquidations as exits; whenever \<open>pnl_pct \<le> - stop_loss_pct\<close>
  the exit is \<open>STOP_LOSS\<close>, whatever the later conditions are; the position is reset when
  an exit fires and nothing changes when none does. A call of \<^verbatim>\<open>OnData\<close> logs at most one
  exit and liquidates at most once, never together with an order, and on a bar seen while
  invested (valid price, positive entry price) its exits are again \<open>exit_in_order\<close>.
\<close>

theorem exit_priority_order:
  "(0 < entry_price s \<longrightarrow>
      (\<exists>s' effs. ManagePosition s d price = Inr (s', effs)
         \<and> exit_reasons effs = exit_in_order s (Time d) price
         \<and> liquidations effs = length (exit_reasons effs)
         \<and> (pnl_pct s price \<le> - stop_loss_pct s \<longrightarrow> exit_reasons effs = [STOP_LOSS])
         \<and> (exit_reasons effs \<noteq> [] \<longrightarrow> s' = ResetPosition s)
         \<and> (exit_reasons effs = [] \<longrightarrow> s' = s \<and> effs = [])))
   \<and> length (exit_in_order s now price) \<le> 1
   \<and> (\<forall>s' effs. OnData s d = Inr (s', effs) \<longrightarrow>
         length (exit_reasons effs) \<le> 1 \<and> liquidations effs \<le> 1
         \<and> (orders effs = [] \<or> exit_reasons effs = []))
   \<and> (\<not> IsWarmingUp d \<and> days_to_launch_readable (launch d) \<and> has_rklb d \<and> 0 < Price d
        \<and> Invested d \<and> 0 < entry_price s \<longrightarrow>
      (\<exists>s' effs. OnData s d = Inr (s', effs)
         \<and> exit_reasons effs = exit_in_order s (Time d) (Price d)
         \<and> (pnl_pct s (Price d) \<le> - stop_loss_pct s \<longrightarrow> exit_reasons effs = [STOP_LOSS])))"
proof (intro conjI impI allI)
  assume pos: "0 < entry_price s"
  from ManagePosition_exit_in_order[OF pos, of d price]
  show "\<exists>s' effs. ManagePosition s d price = Inr (s', effs)
         \<and> exit_reasons effs = exit_in_order s (Time d) price
         \<and> liquidations effs = length (exit_reasons effs)
         \<and> (pnl_pct s price \<le> - stop_loss_pct s \<longrightarrow> exit_reasons effs = [STOP_LOSS])
         \<and> (exit_reasons effs \<noteq> [] \<longrightarrow> s' = ResetPosition s)
         \<and> (exit_reasons effs = [] \<longrightarrow> s' = s \<and> effs = [])"
    by (auto simp: exit_in_order_def)
next
  show "length (exit_in_order s now price) \<le> 1"
    by (simp add: exit_in_order_def)
next
  fix s' effs assume "OnData s d = Inr (s', effs)"
  from OnData_frame[OF this]
  show "length (exit_reasons effs) \<le> 1" "liquidations effs \<le> 1"
    "orders effs = [] \<or> exit_reasons effs = []"
    by simp_all
next
  assume "\<not> IsWarmingUp d \<and> days_to_launch_readable (launch d) \<and> has_rklb d \<and> 0 < Price d
        \<and> Invested d \<and> 0 < entry_price s"
  then have "\<exists>s' effs. OnData s d = Inr (s', effs)
     \<and> exit_reasons effs = exit_in_order s (Time d) (Price d)"
    using OnData_invested_exits[of d s] by blast
  then show "\<exists>s' effs. OnData s d = Inr (s', effs)
         \<and> exit_reasons effs = exit_in_order s (Time d) (Price d)
         \<and> (pnl_pct s (Price d) \<le> - stop_loss_pct s \<longrightarrow> exit_reasons effs = [STOP_LOSS])"
    by (auto simp: exit_in_order_def)
qed

theorem exit_priority_order_witness:
  "0 < entry_price ((held_at 100 (midnight 2024 1 8))\<lparr>stop_loss_pct := - 0.2\<rparr>)
   \<and> pnl_pct ((held_at 100 (midnight 2024 1 8))\<lparr>stop_loss_pct := - 0.2\<rparr>) 115
        \<le> - stop_loss_pct ((held_at 100 (midnight 2024 1 8))\<lparr>stop_loss_pct := - 0.2\<rparr>)
   \<and> pnl_pct ((held_at 100 (midnight 2024 1 8))\<lparr>stop_loss_pct := - 0.2\<rparr>) 115
        \<ge> take_profit_pct ((held_at 100 (midnight 2024 1 8))\<lparr>stop_loss_pct := - 0.2\<rparr>)
   \<and> ManagePosition ((held_at 100 (midnight 2024 1 8))\<lparr>stop_loss_pct := - 0.2\<rparr>)
        (quiet_bar (midnight 2024 1 9) 115 True) 115
       = Inr (ResetPosition ((held_at 100 (midnight 2024 1 8))\<lparr>stop_loss_pct := - 0.2\<rparr>),
              [Liquidate, Log (Sold STOP_LOSS 115 15 1)])
   \<and> exit_in_order ((held_at 100 (midnight 2024 1 8))\<lparr>stop_loss_pct := - 0.2\<rparr>)
        (Time (quiet_bar (midnight 2024 1 9) 115 True)) 115 = [STOP_LOSS]"
proof -
  let ?s = "(held_at 100 (midnight 2024 1 8))\<lparr>stop_loss_pct := - 0.2\<rparr>"
  let ?d = "quiet_bar (midnight 2024 1 9) 115 True"
  have h: "0 < entry_price ?s" "pnl_pct ?s 115 \<le> - stop_loss_pct ?s"
    "pnl_pct ?s 115 \<ge> take_profit_pct ?s"
    by (simp_all add: held_at_def Initialize_def pnl_pct_def)
  have e: "ManagePosition ?s ?d 115 = Inr (ResetPosition ?s, [Liquidate, Log (Sold STOP_LOSS 115 15 1)])"
    by code_simp
  from exit_priority_order[of ?s ?d 115 "Time ?d"] h(1,2) e
  have "exit_in_order ?s (Time ?d) 115 = [STOP_LOSS]" by auto
  with h e show ?thesis by simp
qed

text \<open>
  Claim C7. For every price, indicator snapshot and tracker state, the score
  \<^verbatim>\<open>CalculateSignalScore\<close> returns is the number of the seven predicates that hold, hence
  between 0 and 7; its reasons are the reasons of the predicates that hold, in evaluation
  order, so there are as many reasons as points; and the result is a function of the price,
  the seven indicator values read and the four tracker fields alone: two calls that agree
  on them return the same score, reasons and log line, whatever else differs.
\<close>

theorem signal_score_counts_predicates:
  "fst (CalculateSignalScore s d price) = int (length (filter fst (seven_predicates s d price)))
   \<and> 0 \<le> fst (CalculateSignalScore s d price) \<and> fst (CalculateSignalScore s d price) \<le> 7
   \<and> fst (snd (CalculateSignalScore s d price)) = map snd (filter fst (seven_predicates s d price))
   \<and> int (length (fst (snd (CalculateSignalScore s d price)))) = fst (CalculateSignalScore s d price)
   \<and> (rsi_Value d' = rsi_Value d \<and> macd_Value d' = macd_Value d \<and> macd_Signal d' = macd_Signal d
        \<and> macd_Histogram d' = macd_Histogram d \<and> sma_fast_Value d' = sma_fast_Value d
        \<and> sma_slow_Value d' = sma_slow_Value d \<and> bb_LowerBand d' = bb_LowerBand d
        \<and> upcoming_launch s' = upcoming_launch s \<and> days_to_launch s' = days_to_launch s
        \<and> days_since_launch s' = days_since_launch s
        \<and> last_launch_outcome s' = last_launch_outcome s
      \<longrightarrow> CalculateSignalScore s' d' price = CalculateSignalScore s d price)"
proof (intro conjI impI)
  show "fst (CalculateSignalScore s d price) = int (length (filter fst (seven_predicates s d price)))"
    by (simp add: CalculateSignalScore_collect Let_def)
  show "0 \<le> fst (CalculateSignalScore s d price)" "fst (CalculateSignalScore s d price) \<le> 7"
    using CalculateSignalScore_range[of s d price] by simp_all
  show "fst (snd (CalculateSignalScore s d price)) = map snd (filter fst (seven_predicates s d price))"
    by (simp add: CalculateSignalScore_collect Let_def)
  show "int (length (fst (snd (CalculateSignalScore s d price)))) = fst (CalculateSignalScore s d price)"
    by (simp add: CalculateSignalScore_collect Let_def)
next
  assume "rsi_Value d' = rsi_Value d \<and> macd_Value d' = macd_Value d \<and> macd_Signal d' = macd_Signal d
        \<and> macd_Histogram d' = macd_Histogram d \<and> sma_fast_Value d' = sma_fast_Value d
        \<and> sma_slow_Value d' = sma_slow_Value d \<and> bb_LowerBand d' = bb_LowerBand d
        \<and> upcoming_launch s' = upcoming_launch s \<and> days_to_launch s' = days_to_launch s
        \<and> days_since_launch s' = days_since_launch s
        \<and> last_launch_outcome s' = last_launch_outcome s"
  then have "seven_predicates s' d' price = seven_predicates s d price"
    by (simp add: seven_predicates_def)
  then show "CalculateSignalScore s' d' price = CalculateSignalScore s d price"
    by (simp add: CalculateSignalScore_collect)
qed

theorem signal_score_counts_predicates_witness:
  "CalculateSignalScore Initialize (signal_bar (midnight 2024 1 8) 10 1000) 10
     = (3, [RSI_oversold_recovery 38, MACD_bullish 0.2, SMA_uptrend 11 10],
        [Log (SIGNAL_SCORE 3 [RSI_oversold_recovery 38, MACD_bullish 0.2, SMA_uptrend 11 10])])
   \<and> map fst (seven_predicates Initialize (signal_bar (midnight 2024 1 8) 10 1000) 10)
       = [True, True, True, False, False, False, False]
   \<and> CalculateSignalScore (held_at 5 (midnight 2024 1 2)) (signal_bar (midnight 2024 1 9) 10 500) 10
       = CalculateSignalScore Initialize (signal_bar (midnight 2024 1 8) 10 1000) 10"
proof -
  let ?s = Initialize and ?d = "signal_bar (midnight 2024 1 8) 10 1000"
  let ?s' = "held_at 5 (midnight 2024 1 2)" and ?d' = "signal_bar (midnight 2024 1 9) 10 500"
  have 1: "CalculateSignalScore ?s ?d 10
     = (3, [RSI_oversold_recovery 38, MACD_bullish 0.2, SMA_uptrend 11 10],
        [Log (SIGNAL_SCORE 3 [RSI_oversold_recovery 38, MACD_bullish 0.2, SMA_uptrend 11 10])])"
    by code_simp
  have 2: "map fst (seven_predicates ?s ?d 10) = [True, True, True, False, False, False, False]"
    by code_simp
  have h: "rsi_Value ?d' = rsi_Value ?d \<and> macd_Value ?d' = macd_Value ?d \<and> macd_Signal ?d' = macd_Signal ?d
        \<and> macd_Histogram ?d' = macd_Histogram ?d \<and> sma_fast_Value ?d' = sma_fast_Value ?d
        \<and> sma_slow_Value ?d' = sma_slow_Value ?d \<and> bb_LowerBand ?d' = bb_LowerBand ?d
        \<and> upcoming_launch ?s' = upcoming_launch ?s \<and> days_to_launch ?s' = days_to_launch ?s
        \<and> days_since_launch ?s' = days_since_launch ?s
        \<and> last_launch_outcome ?s' = last_launch_outcome ?s"
    by (simp add: signal_bar_def held_at_def)
  from signal_score_counts_predicates[of ?s ?d 10 ?d' ?s'] h
  have 3: "CalculateSignalScore ?s' ?d' 10 = CalculateSignalScore ?s ?d 10" by blast
  from 1 2 3 show ?thesis by simp
qed

text \<open>
  Claim C3, as amended. The claim has the increment of \<^verbatim>\<open>days_since_launch\<close> first and the
  reset to 0 after it, so that the counter is 0 at the end of a step with a launch record
  and 3 after three more steps. \<^verbatim>\<open>OnData\<close> does it the other way round: the launch block
  (lines 80 to 90) sets the counter to 0, and the unconditional increment (line 93) follows
  in the same call. So on a step that is not a warm-up step and carries a launch record
  with \<open>Value = 2\<close>, the counter is 0 after the launch block and 1 at the end of the step
  (the outcome is stored and \<^verbatim>\<open>upcoming_launch\<close> is false), and after any number \<open>n\<close> of
  further steps without a record it is \<open>1 + n\<close>: 4 after three steps.
\<close>

theorem launch_day_counts_as_day_one:
  "\<not> IsWarmingUp d \<and> launch d = Some l \<and> Value l = 2 \<longrightarrow>
     (\<exists>s2 log_launch s1 effs1.
        process_launch_events (reset_weekly_counter s (Time d)) (launch d) = Inr (s2, log_launch)
      \<and> days_since_launch s2 = 0
      \<and> days_since_launch (increment_days_since_launch s2) = 1
      \<and> OnData s d = Inr (s1, effs1)
      \<and> days_since_launch s1 = 1
      \<and> last_launch_outcome s1 = Some (Outcome l)
      \<and> \<not> upcoming_launch s1
      \<and> (\<forall>ds. (\<forall>x\<in>set ds. \<not> IsWarmingUp x \<and> launch x = None) \<longrightarrow>
            (\<exists>s4 effs. run s1 ds = Inr (s4, effs)
               \<and> days_since_launch s4 = 1 + int (length ds)
               \<and> (length ds = 3 \<longrightarrow> days_since_launch s4 = 4))))"
proof (intro impI)
  assume h: "\<not> IsWarmingUp d \<and> launch d = Some l \<and> Value l = 2"
  then have r: "days_to_launch_readable (launch d)" by (simp add: days_to_launch_readable_def)
  from process_launch_events_total[OF r] obtain s2 lg where
    1: "process_launch_events (reset_weekly_counter s (Time d)) (launch d) = Inr (s2, lg)" by blast
  from process_launch_events_tracker(1)[OF 1] h have 2: "days_since_launch s2 = 0" by simp
  from OnData_total[OF r, of s] obtain s1 e1 where 3: "OnData s d = Inr (s1, e1)" by blast
  from OnData_tracker[OF 3] h have 4: "days_since_launch s1 = 1"
    "last_launch_outcome s1 = Some (Outcome l)" "\<not> upcoming_launch s1" by simp_all
  have 5: "\<forall>ds. (\<forall>x\<in>set ds. \<not> IsWarmingUp x \<and> launch x = None) \<longrightarrow>
            (\<exists>s4 effs. run s1 ds = Inr (s4, effs)
               \<and> days_since_launch s4 = 1 + int (length ds)
               \<and> (length ds = 3 \<longrightarrow> days_since_launch s4 = 4))"
  proof (intro allI impI)
    fix ds :: "slice list" assume "\<forall>x\<in>set ds. \<not> IsWarmingUp x \<and> launch x = None"
    from run_quiet_days_since_launch[OF this, of s1] 4(1)
    show "\<exists>s4 effs. run s1 ds = Inr (s4, effs)
               \<and> days_since_launch s4 = 1 + int (length ds)
               \<and> (length ds = 3 \<longrightarrow> days_since_launch s4 = 4)" by auto
  qed
  from 1 2 3 4 5 show "\<exists>s2 log_launch s1 effs1.
        process_launch_events (reset_weekly_counter s (Time d)) (launch d) = Inr (s2, log_launch)
      \<and> days_since_launch s2 = 0
      \<and> days_since_launch (increment_days_since_launch s2) = 1
      \<and> OnData s d = Inr (s1, effs1)
      \<and> days_since_launch s1 = 1
      \<and> last_launch_outcome s1 = Some (Outcome l)
      \<and> \<not> upcoming_launch s1
      \<and> (\<forall>ds. (\<forall>x\<in>set ds. \<not> IsWarmingUp x \<and> launch x = None) \<longrightarrow>
            (\<exists>s4 effs. run s1 ds = Inr (s4, effs)
               \<and> days_since_launch s4 = 1 + int (length ds)
               \<and> (length ds = 3 \<longrightarrow> days_since_launch s4 = 4)))"
    by (intro exI[of _ s2] exI[of _ lg] exI[of _ s1] exI[of _ e1]) simp
qed

theorem launch_day_counts_as_day_one_witness:
  "\<not> IsWarmingUp (launch_bar (midnight 2024 1 9) ''2024-01-09,Mission,45,Success'')
   \<and> launch (launch_bar (midnight 2024 1 9) ''2024-01-09,Mission,45,Success'')
       = Some \<lparr>Symbol = ''RKLBLAUNCHES'', launch_Time = midnight 2024 1 9 + 12 * us_per_hour,
                Value = 2, Mission = ''Mission'', FlightNo = ''45'', Outcome = ''Success'',
                DaysToLaunch = ''0''\<rparr>
   \<and> days_since_launch_after Initialize
        [launch_bar (midnight 2024 1 9) ''2024-01-09,Mission,45,Success''] = Some 1
   \<and> days_since_launch_after Initialize
        [launch_bar (midnight 2024 1 9) ''2024-01-09,Mission,45,Success'',
         quiet_bar (midnight 2024 1 10) 10 False,
         quiet_bar (midnight 2024 1 11) 10 False,
         quiet_bar (midnight 2024 1 12) 10 False] = Some 4"
proof -
  let ?d = "launch_bar (midnight 2024 1 9) ''2024-01-09,Mission,45,Success''"
  let ?l = "\<lparr>Symbol = ''RKLBLAUNCHES'', launch_Time = midnight 2024 1 9 + 12 * us_per_hour,
                Value = 2, Mission = ''Mission'', FlightNo = ''45'', Outcome = ''Success'',
                DaysToLaunch = ''0''\<rparr>"
  let ?ds = "[quiet_bar (midnight 2024 1 10) 10 False,
         quiet_bar (midnight 2024 1 11) 10 False,
         quiet_bar (midnight 2024 1 12) 10 False]"
  have h1: "\<not> IsWarmingUp ?d" by code_simp
  have h2: "launch ?d = Some ?l" by code_simp
  have h3: "Value ?l = 2" by simp
  have q: "\<forall>x\<in>set ?ds. \<not> IsWarmingUp x \<and> launch x = None"
    by (simp add: quiet_bar_def)
  from launch_day_counts_as_day_one[of ?d ?l Initialize] h1 h2 h3
  obtain s1 effs1 where a: "OnData Initialize ?d = Inr (s1, effs1)" "days_since_launch s1 = 1"
    and b: "\<forall>ds. (\<forall>x\<in>set ds. \<not> IsWarmingUp x \<and> launch x = None) \<longrightarrow>
            (\<exists>s4 effs. run s1 ds = Inr (s4, effs)
               \<and> days_since_launch s4 = 1 + int (length ds)
               \<and> (length ds = 3 \<longrightarrow> days_since_launch s4 = 4))"
    by blast
  from b q obtain s4 effs where c: "run s1 ?ds = Inr (s4, effs)" "days_since_launch s4 = 4"
    by (metis length_Cons list.size(3) numeral_3_eq_3)
  have r1: "days_since_launch_after Initialize [?d] = Some 1"
    using a by (simp add: days_since_launch_after_def)
  have r2: "days_since_launch_after Initialize (?d # ?ds) = Some 4"
    using a c by (simp add: days_since_launch_after_def)
  from h1 h2 r1 r2 show ?thesis by simp
qed

theorem days_since_launch_on_launch_day_counterexample:
  "days_since_launch_after Initialize
        [launch_bar (midnight 2024 1 9) ''2024-01-09,Mission,45,Success''] = Some 1
   \<and> days_since_launch_after Initialize
        [launch_bar (midnight 2024 1 9) ''2024-01-09,Mission,45,Success''] \<noteq> Some 0
   \<and> days_since_launch_after Initialize
        [launch_bar (midnight 2024 1 9) ''2024-01-09,Mission,45,Success'',
         quiet_bar (midnight 2024 1 10) 10 False,
         quiet_bar (midnight 2024 1 11) 10 False,
         quiet_bar (midnight 2024 1 12) 10 False] = Some 4
   \<and> days_since_launch_after Initialize
        [launch_bar (midnight 2024 1 9) ''2024-01-09,Mission,45,Success'',
         quiet_bar (midnight 2024 1 10) 10 False,
         quiet_bar (midnight 2024 1 11) 10 False,
         quiet_bar (midnight 2024 1 12) 10 False] \<noteq> Some 3"
  by code_simp

text \<open>
  Claim C4. Every record \<^verbatim>\<open>RocketLabLaunch.Reader\<close> makes of a line has \<open>Value = 2\<close>, never
  the \<open>Value = 1\<close> of an upcoming launch. So in every run from the initial state whose
  launch records all come from the reader, after every number \<open>n\<close> of steps: the run has
  raised nothing, \<^verbatim>\<open>upcoming_launch\<close> is false, and no \<^verbatim>\<open>SIGNAL SCORE\<close> line logged so far
  holds a launch-in-days reason. And whenever \<^verbatim>\<open>upcoming_launch\<close> is false, the sixth
  predicate is false, the score is the number of the other six predicates that hold, and
  the reasons of \<^verbatim>\<open>CalculateSignalScore\<close> hold no launch-in-days reason.
\<close>

theorem reader_never_announces_upcoming_launch:
  "(Reader config_Symbol line = Some l \<longrightarrow> Value l = 2 \<and> Value l \<noteq> 1)
   \<and> ((\<forall>x\<in>set ds. \<forall>r. launch x = Some r \<longrightarrow> (\<exists>sym ln. Reader sym ln = Some r)) \<longrightarrow>
        (\<exists>s' effs. run Initialize (take n ds) = Inr (s', effs)
           \<and> \<not> upcoming_launch s'
           \<and> filter is_launch_reason (signal_reasons effs) = []))
   \<and> (\<not> upcoming_launch s \<longrightarrow>
        \<not> fst (seven_predicates s d price ! 5)
        \<and> fst (CalculateSignalScore s d price)
            = int (length (filter fst (take 5 (seven_predicates s d price)
                                       @ drop 6 (seven_predicates s d price))))
        \<and> filter is_launch_reason (fst (snd (CalculateSignalScore s d price))) = [])"
proof (intro conjI impI)
  assume "Reader config_Symbol line = Some l"
  from Reader_Value(1)[OF this] show "Value l = 2" "Value l \<noteq> 1" by simp_all
next
  assume h: "\<forall>x\<in>set ds. \<forall>r. launch x = Some r \<longrightarrow> (\<exists>sym ln. Reader sym ln = Some r)"
  have v: "\<forall>x\<in>set (take n ds). \<forall>r. launch x = Some r \<longrightarrow> Value r \<noteq> 1"
  proof (intro ballI allI impI)
    fix x r assume "x \<in> set (take n ds)" "launch x = Some r"
    with h obtain sym ln where "Reader sym ln = Some r"
      using in_set_takeD by fastforce
    from Reader_Value(1)[OF this] show "Value r \<noteq> 1" by simp
  qed
  then have "\<forall>x\<in>set (take n ds). days_to_launch_readable (launch x)"
    by (auto simp: days_to_launch_readable_def split: option.splits)
  from run_total[OF this, of Initialize] obtain s' effs where
    r: "run Initialize (take n ds) = Inr (s', effs)" by blast
  have "\<not> upcoming_launch Initialize" by (simp add: Initialize_def)
  from run_no_launch_reason[OF r this v] r
  show "\<exists>s' effs. run Initialize (take n ds) = Inr (s', effs)
           \<and> \<not> upcoming_launch s'
           \<and> filter is_launch_reason (signal_reasons effs) = []" by blast
next
  assume u: "\<not> upcoming_launch s"
  then show 6: "\<not> fst (seven_predicates s d price ! 5)"
    by (simp add: seven_predicates_def)
  from filter_fst_without_sixth[OF length_seven_predicates 6]
  show "fst (CalculateSignalScore s d price)
            = int (length (filter fst (take 5 (seven_predicates s d price)
                                       @ drop 6 (seven_predicates s d price))))"
    by (simp add: CalculateSignalScore_collect Let_def)
  from CalculateSignalScore_no_launch_reason[OF u]
  show "filter is_launch_reason (fst (snd (CalculateSignalScore s d price))) = []" .
qed

theorem reader_never_announces_upcoming_launch_witness:
  "Reader ''RKLBLAUNCHES'' ''2024-01-09,Mission,45,Success''
     = Some \<lparr>Symbol = ''RKLBLAUNCHES'', launch_Time = midnight 2024 1 9 + 12 * us_per_hour,
              Value = 2, Mission = ''Mission'', FlightNo = ''45'', Outcome = ''Success'',
              DaysToLaunch = ''0''\<rparr>
   \<and> run Initialize (take 2
        [launch_bar (midnight 2024 1 9) ''2024-01-09,Mission,45,Success'',
         signal_bar (midnight 2024 1 10) 10 1000])
       = Inr (Initialize\<lparr>entry_price := 10, entry_date := Some (midnight 2024 1 10),
                         trades_this_week := 1, last_week := 2,
                         last_launch_outcome := Some ''Success'', days_since_launch := 2\<rparr>,
              [Log (LAUNCH_EVENT ''Mission'' ''Success''),
               Log (SIGNAL_SCORE 4 [RSI_oversold_recovery 38, MACD_bullish 0.2, SMA_uptrend 11 10,
                                    Post_launch_momentum 2]),
               MarketOrder 95,
               Log (BUY 95 10 4 38 0.5)])
   \<and> \<not> upcoming_launch (Initialize\<lparr>entry_price := 10, entry_date := Some (midnight 2024 1 10),
                         trades_this_week := 1, last_week := 2,
                         last_launch_outcome := Some ''Success'', days_since_launch := 2\<rparr>)"
proof -
  let ?line = "''2024-01-09,Mission,45,Success''"
  let ?ds = "[launch_bar (midnight 2024 1 9) ?line, signal_bar (midnight 2024 1 10) 10 1000]"
  have 1: "Reader ''RKLBLAUNCHES'' ?line
     = Some \<lparr>Symbol = ''RKLBLAUNCHES'', launch_Time = midnight 2024 1 9 + 12 * us_per_hour,
              Value = 2, Mission = ''Mission'', FlightNo = ''45'', Outcome = ''Success'',
              DaysToLaunch = ''0''\<rparr>"
    by code_simp
  have h: "\<forall>x\<in>set ?ds. \<forall>r. launch x = Some r \<longrightarrow> (\<exists>sym ln. Reader sym ln = Some r)"
    by (auto simp: launch_bar_def signal_bar_def)
  have 2: "run Initialize (take 2 ?ds)
       = Inr (Initialize\<lparr>entry_price := 10, entry_date := Some (midnight 2024 1 10),
                         trades_this_week := 1, last_week := 2,
                         last_launch_outcome := Some ''Success'', days_since_launch := 2\<rparr>,
              [Log (LAUNCH_EVENT ''Mission'' ''Success''),
               Log (SIGNAL_SCORE 4 [RSI_oversold_recovery 38, MACD_bullish 0.2, SMA_uptrend 11 10,
                                    Post_launch_momentum 2]),
               MarketOrder 95,
               Log (BUY 95 10 4 38 0.5)])"
    by code_simp
  from reader_never_announces_upcoming_launch[of "''RKLBLAUNCHES''" ?line _ ?ds 2] h 2
  have 3: "\<not> upcoming_launch (Initialize\<lparr>entry_price := 10, entry_date := Some (midnight 2024 1 10),
                         trades_this_week := 1, last_week := 2,
                         last_launch_outcome := Some ''Success'', days_since_launch := 2\<rparr>)"
    by auto
  from 1 2 3 show ?thesis by simp
qed

text \<open>
  Claim C10. On a step whose current price is not positive, or whose open position has a
  non-positive entry price, \<^verbatim>\<open>OnData\<close> returns normally with no order, no exit and no
  liquidation, and \<^verbatim>\<open>entry_price\<close> and \<^verbatim>\<open>entry_date\<close> are as before. \<^verbatim>\<open>ManagePosition\<close>
  returns before computing \<^verbatim>\<open>pnl_pct\<close> when the entry price is not positive, and neither
  \<^verbatim>\<open>ManagePosition\<close> nor \<^verbatim>\<open>OnData\<close> ever raises \<^verbatim>\<open>ZeroDivisionError\<close>, on any state and
  any input.
\<close>

theorem invalid_price_or_entry_is_no_op:
  "OnData s d \<noteq> Inl ZeroDivisionError
   \<and> ManagePosition s d price \<noteq> Inl ZeroDivisionError
   \<and> (entry_price s \<le> 0 \<longrightarrow> ManagePosition s d price = Inr (s, []))
   \<and> (days_to_launch_readable (launch d) \<and> (Price d \<le> 0 \<or> (Invested d \<and> entry_price s \<le> 0))
        \<longrightarrow> (\<exists>s' effs. OnData s d = Inr (s', effs)
               \<and> orders effs = [] \<and> exit_reasons effs = [] \<and> liquidations effs = 0
               \<and> entry_price s' = entry_price s \<and> entry_date s' = entry_date s))"
proof (intro conjI impI)
  show "OnData s d \<noteq> Inl ZeroDivisionError"
    using OnData_error[of s d ZeroDivisionError] by auto
  show "ManagePosition s d price \<noteq> Inl ZeroDivisionError"
    by (rule ManagePosition_no_error)
next
  assume "entry_price s \<le> 0"
  then show "ManagePosition s d price = Inr (s, [])" by (rule ManagePosition_invalid_entry)
next
  assume "days_to_launch_readable (launch d) \<and> (Price d \<le> 0 \<or> (Invested d \<and> entry_price s \<le> 0))"
  then show "\<exists>s' effs. OnData s d = Inr (s', effs)
               \<and> orders effs = [] \<and> exit_reasons effs = [] \<and> liquidations effs = 0
               \<and> entry_price s' = entry_price s \<and> entry_date s' = entry_date s"
    using OnData_no_op[of d s] by blast
qed

theorem invalid_price_or_entry_is_no_op_witness:
  "days_to_launch_readable (launch (quiet_bar (midnight 2024 1 9) 0 True))
   \<and> Price (quiet_bar (midnight 2024 1 9) 0 True) \<le> 0
   \<and> OnData (held_at 100 (midnight 2024 1 8)) (quiet_bar (midnight 2024 1 9) 0 True)
       = Inr ((held_at 100 (midnight 2024 1 8))\<lparr>last_week := 2, days_since_launch := 1000\<rparr>, [])
   \<and> Invested (quiet_bar (midnight 2024 1 9) 94 True) \<and> entry_price Initialize \<le> 0
   \<and> OnData Initialize (quiet_bar (midnight 2024 1 9) 94 True)
       = Inr (Initialize\<lparr>last_week := 2, days_since_launch := 1000\<rparr>, [])
   \<and> ManagePosition Initialize (quiet_bar (midnight 2024 1 9) 94 True) 94 = Inr (Initialize, [])"
proof -
  let ?d0 = "quiet_bar (midnight 2024 1 9) 0 True" and ?d1 = "quiet_bar (midnight 2024 1 9) 94 True"
  let ?s = "held_at 100 (midnight 2024 1 8)"
  have h: "days_to_launch_readable (launch ?d0)" "Price ?d0 \<le> 0" "Invested ?d1"
    "entry_price Initialize \<le> 0"
    by (simp_all add: quiet_bar_def days_to_launch_readable_def Initialize_def)
  have 1: "OnData ?s ?d0 = Inr (?s\<lparr>last_week := 2, days_since_launch := 1000\<rparr>, [])"
    by code_simp
  have 2: "OnData Initialize ?d1 = Inr (Initialize\<lparr>last_week := 2, days_since_launch := 1000\<rparr>, [])"
    by code_simp
  from invalid_price_or_entry_is_no_op[of Initialize ?d1 94] h(4)
  have 3: "ManagePosition Initialize ?d1 94 = Inr (Initialize, [])" by blast
  from h 1 2 3 show ?thesis by simp
qed

text \<open>
  Claim C8, as amended. On a step that is processed (not a warm-up step, a bar with a
  positive price) while flat, with the weekly count below its cap after the weekly reset
  and the four checked indicators ready, an entry occurs if and only if the signal score
  is at least 3 and \<open>shares\<close> is positive, where \<open>shares\<close> is what the source computes:
  \<^verbatim>\<open>int(available_cash / price)\<close> with \<^verbatim>\<open>available_cash = self.Portfolio.Cash * 0.95\<close>, the
  product and the quotient each rounded to the nearest float and the literal \<^verbatim>\<open>0.95\<close> being
  the float nearest to 0.95. Then exactly one market order, for that many shares, is
  issued, \<^verbatim>\<open>entry_price\<close> and \<^verbatim>\<open>entry_date\<close> become the price and the time of the step, and
  the weekly count grows by exactly 1. Otherwise no order is issued, and the position
  fields and the weekly count are unchanged. No exit is logged either way. The score is
  the one computed on the launch counters as updated in this step (they are the same
  after the step).

  The claim's \<open>floor (availableCash * 0.95 / price)\<close> is not that number. Read on the
  decimal numbers, with 1100 in cash at the price 2.20 the formula gives 475 shares; the
  source orders 474, because the float nearest to 2.20 is above 2.20 and the float
  quotient is just below 475. Read on the floats the source holds, with 501 in cash at
  the float nearest to 2.85 the exact quotient is just below 167 and the formula gives
  166; the source orders 167, because the float quotient rounds up to 167.
\<close>

theorem entry_iff_score_and_float_shares:
  "\<not> IsWarmingUp d \<and> days_to_launch_readable (launch d) \<and> has_rklb d \<and> 0 < Price d
   \<and> \<not> Invested d
   \<and> trades_this_week (reset_weekly_counter s (Time d)) < max_trades_per_week s
   \<and> rsi_IsReady d \<and> macd_IsReady d \<and> sma_fast_IsReady d \<and> sma_slow_IsReady d
   \<longrightarrow>
   (\<exists>s2 log_launch s' effs.
      process_launch_events (reset_weekly_counter s (Time d)) (launch d) = Inr (s2, log_launch)
    \<and> OnData s d = Inr (s', effs)
    \<and> exit_reasons effs = [] \<and> liquidations effs = 0
    \<and> (let score = fst (CalculateSignalScore (increment_days_since_launch s2) d (Price d));
            shares = py_int_of_float (round_double (float_mul (Cash d) (round_double 0.95) / Price d))
        in score = fst (CalculateSignalScore s' d (Price d))
         \<and> (if score \<ge> 3 \<and> shares > 0
             then orders effs = [shares]
                \<and> entry_price s' = Price d \<and> entry_date s' = Some (Time d)
                \<and> trades_this_week s' = trades_this_week (reset_weekly_counter s (Time d)) + 1
             else orders effs = []
                \<and> entry_price s' = entry_price s \<and> entry_date s' = entry_date s
                \<and> trades_this_week s' = trades_this_week (reset_weekly_counter s (Time d)))))"
proof (intro impI)
  assume h: "\<not> IsWarmingUp d \<and> days_to_launch_readable (launch d) \<and> has_rklb d \<and> 0 < Price d
   \<and> \<not> Invested d
   \<and> trades_this_week (reset_weekly_counter s (Time d)) < max_trades_per_week s
   \<and> rsi_IsReady d \<and> macd_IsReady d \<and> sma_fast_IsReady d \<and> sma_slow_IsReady d"
  then obtain s2 lg s' effs2 where
    1: "process_launch_events (reset_weekly_counter s (Time d)) (launch d) = Inr (s2, lg)"
    and 2: "generate_entry_signals (increment_days_since_launch s2) d (Price d) = Inr (s', effs2)"
    and 3: "OnData s d = Inr (s', lg @ effs2)"
    using OnData_flat[of d s] by blast
  let ?s3 = "increment_days_since_launch s2"
  note f = process_launch_events_frame[OF 1]
  from h f have cap: "trades_this_week ?s3 < max_trades_per_week ?s3" by simp
  from h have p: "0 < Price d" and r: "rsi_IsReady d" "macd_IsReady d" "sma_fast_IsReady d"
    "sma_slow_IsReady d" by simp_all
  from generate_entry_signals_entry[OF p cap r] 2
  have g: "exit_reasons effs2 = []" "liquidations effs2 = 0"
    "if fst (CalculateSignalScore ?s3 d (Price d)) \<ge> 3
           \<and> py_int_of_float (round_double (float_mul (Cash d) (round_double 0.95) / Price d)) > 0
         then orders effs2
                = [py_int_of_float (round_double (float_mul (Cash d) (round_double 0.95) / Price d))]
            \<and> s' = ?s3\<lparr>entry_price := Price d, entry_date := Some (Time d),
                      trades_this_week := trades_this_week ?s3 + 1\<rparr>
         else orders effs2 = [] \<and> s' = ?s3"
    by auto
  note gf = generate_entry_signals_frame[OF 2]
  have "seven_predicates s' d (Price d) = seven_predicates ?s3 d (Price d)"
    by (rule seven_predicates_tracker_cong) (simp_all add: gf)
  then have sc: "fst (CalculateSignalScore ?s3 d (Price d)) = fst (CalculateSignalScore s' d (Price d))"
    by (simp add: CalculateSignalScore_collect Let_def)
  have body: "let score = fst (CalculateSignalScore ?s3 d (Price d));
            shares = py_int_of_float (round_double (float_mul (Cash d) (round_double 0.95) / Price d))
        in score = fst (CalculateSignalScore s' d (Price d))
         \<and> (if score \<ge> 3 \<and> shares > 0
             then orders (lg @ effs2) = [shares]
                \<and> entry_price s' = Price d \<and> entry_date s' = Some (Time d)
                \<and> trades_this_week s' = trades_this_week (reset_weekly_counter s (Time d)) + 1
             else orders (lg @ effs2) = []
                \<and> entry_price s' = entry_price s \<and> entry_date s' = entry_date s
                \<and> trades_this_week s' = trades_this_week (reset_weekly_counter s (Time d)))"
    unfolding Let_def using g(3) sc f by (auto split: if_splits)
  have ex: "exit_reasons (lg @ effs2) = []" "liquidations (lg @ effs2) = 0"
    using g(1,2) f by simp_all
  from 1 3 ex body show "\<exists>s2 log_launch s' effs.
      process_launch_events (reset_weekly_counter s (Time d)) (launch d) = Inr (s2, log_launch)
    \<and> OnData s d = Inr (s', effs)
    \<and> exit_reasons effs = [] \<and> liquidations effs = 0
    \<and> (let score = fst (CalculateSignalScore (increment_days_since_launch s2) d (Price d));
            shares = py_int_of_float (round_double (float_mul (Cash d) (round_double 0.95) / Price d))
        in score = fst (CalculateSignalScore s' d (Price d))
         \<and> (if score \<ge> 3 \<and> shares > 0
             then orders effs = [shares]
                \<and> entry_price s' = Price d \<and> entry_date s' = Some (Time d)
                \<and> trades_this_week s' = trades_this_week (reset_weekly_counter s (Time d)) + 1
             else orders effs = []
                \<and> entry_price s' = entry_price s \<and> entry_date s' = entry_date s
                \<and> trades_this_week s' = trades_this_week (reset_weekly_counter s (Time d))))"
    by (intro exI[of _ s2] exI[of _ lg] exI[of _ s'] exI[of _ "lg @ effs2"]) simp
qed

theorem entry_iff_score_and_float_shares_witness:
  "\<not> IsWarmingUp (signal_bar (midnight 2024 1 8) 10 1000)
   \<and> days_to_launch_readable (launch (signal_bar (midnight 2024 1 8) 10 1000))
   \<and> has_rklb (signal_bar (midnight 2024 1 8) 10 1000)
   \<and> 0 < Price (signal_bar (midnight 2024 1 8) 10 1000)
   \<and> \<not> Invested (signal_bar (midnight 2024 1 8) 10 1000)
   \<and> trades_this_week (reset_weekly_counter Initialize (Time (signal_bar (midnight 2024 1 8) 10 1000)))
        < max_trades_per_week Initialize
   \<and> rsi_IsReady (signal_bar (midnight 2024 1 8) 10 1000)
   \<and> macd_IsReady (signal_bar (midnight 2024 1 8) 10 1000)
   \<and> sma_fast_IsReady (signal_bar (midnight 2024 1 8) 10 1000)
   \<and> sma_slow_IsReady (signal_bar (midnight 2024 1 8) 10 1000)
   \<and> py_int_of_float
         (round_double (float_mul (Cash (signal_bar (midnight 2024 1 8) 10 1000)) (round_double 0.95)
            / Price (signal_bar (midnight 2024 1 8) 10 1000))) = 95
   \<and> OnData Initialize (signal_bar (midnight 2024 1 8) 10 1000)
       = Inr (Initialize\<lparr>entry_price := 10, entry_date := Some (midnight 2024 1 8),
                         trades_this_week := 1, last_week := 2, days_since_launch := 1000\<rparr>,
              [Log (SIGNAL_SCORE 3 [RSI_oversold_recovery 38, MACD_bullish 0.2, SMA_uptrend 11 10]),
               MarketOrder 95,
               Log (BUY 95 10 3 38 0.5)])
   \<and> exit_reasons [Log (SIGNAL_SCORE 3 [RSI_oversold_recovery 38, MACD_bullish 0.2, SMA_uptrend 11 10]),
               MarketOrder 95,
               Log (BUY 95 10 3 38 0.5)] = []"
proof -
  let ?d = "signal_bar (midnight 2024 1 8) 10 1000"
  let ?E = "[Log (SIGNAL_SCORE 3 [RSI_oversold_recovery 38, MACD_bullish 0.2, SMA_uptrend 11 10]),
               MarketOrder 95,
               Log (BUY 95 10 3 38 0.5)]"
  have h: "\<not> IsWarmingUp ?d \<and> days_to_launch_readable (launch ?d) \<and> has_rklb ?d \<and> 0 < Price ?d
   \<and> \<not> Invested ?d
   \<and> trades_this_week (reset_weekly_counter Initialize (Time ?d)) < max_trades_per_week Initialize
   \<and> rsi_IsReady ?d \<and> macd_IsReady ?d \<and> sma_fast_IsReady ?d \<and> sma_slow_IsReady ?d"
    by (simp add: signal_bar_def days_to_launch_readable_def Initialize_def)
  have f: "py_int_of_float (round_double (float_mul (Cash ?d) (round_double 0.95) / Price ?d)) = 95"
    by code_simp
  have e: "OnData Initialize ?d
       = Inr (Initialize\<lparr>entry_price := 10, entry_date := Some (midnight 2024 1 8),
                         trades_this_week := 1, last_week := 2, days_since_launch := 1000\<rparr>, ?E)"
    by code_simp
  from entry_iff_score_and_float_shares[of ?d Initialize] h
  have "\<exists>s' effs. OnData Initialize ?d = Inr (s', effs) \<and> exit_reasons effs = []"
    by blast
  with e have x: "exit_reasons ?E = []" by simp
  from h f e x show ?thesis by simp
qed

theorem floor_shares_counterexample:
  "trades_and_orders (OnData Initialize (signal_bar (midnight 2024 1 8) (round_double 2.2) 1100))
     = Some (1, [474])
   \<and> floor_shares 1100 2.2 = 475
   \<and> round_double 2.2 = 2476979795053773 / 1125899906842624
   \<and> trades_and_orders (OnData Initialize (signal_bar (midnight 2024 1 8) (round_double 2.85) 501))
     = Some (1, [167])
   \<and> floor_shares 501 (round_double 2.85) = 166
   \<and> round_double 2.85 = 6417629469002957 / 2251799813685248"
  by code_simp

text \<open>
  Claim C9 (the time-stop scenario of the specification), evaluated on the code. A
  position is entered at 50 on the bar of Monday 2024-04-08 from the initial state (19
  shares from 1000 in cash); the bars of the next seven trading days, Tuesday 2024-04-09
  to Wednesday 2024-04-17, show prices between 48 and 52, so neither the stop-loss nor the
  take-profit condition holds, and the position is kept. The claim has the time stop fire
  when the position has been held 10 trading days and never earlier, and the source
  comments \<^verbatim>\<open>max_hold_days = 10\<close> as \<^verbatim>\<open>Max 10 trading days hold\<close>. The code exits with
  \<open>TIME_STOP\<close> on the bar of Thursday 2024-04-18, the eighth trading day after the entry:
  \<^verbatim>\<open>(self.Time - self.entry_date).days\<close> counts the elapsed days of the clock, weekends
  included, and is 1, 2, 3, 4, 7, 8, 9 and 10 on the eight bars. After an entry on Friday
  2024-04-12 the exit comes on the sixth trading day, Monday 2024-04-22.
\<close>

theorem time_stop_fires_on_eighth_trading_day:
  "run Initialize
     [signal_bar (midnight 2024 4 8) 50 1000,
      quiet_bar (midnight 2024 4 9) 51 True, quiet_bar (midnight 2024 4 10) 52 True,
      quiet_bar (midnight 2024 4 11) 49 True, quiet_bar (midnight 2024 4 12) 48 True,
      quiet_bar (midnight 2024 4 15) 50 True, quiet_bar (midnight 2024 4 16) 51 True,
      quiet_bar (midnight 2024 4 17) 51 True]
     = Inr (Initialize\<lparr>entry_price := 50, entry_date := Some (midnight 2024 4 8),
                       trades_this_week := 0, last_week := 16, days_since_launch := 1007\<rparr>,
            [Log (SIGNAL_SCORE 4 [RSI_oversold_recovery 38, MACD_bullish 0.2, SMA_uptrend 11 10,
                                  Price_above_SMA20]),
             MarketOrder 19,
             Log (BUY 19 50 4 38 0.5)])
   \<and> OnData (Initialize\<lparr>entry_price := 50, entry_date := Some (midnight 2024 4 8),
                         trades_this_week := 0, last_week := 16, days_since_launch := 1007\<rparr>)
        (quiet_bar (midnight 2024 4 18) 51 True)
     = Inr (Initialize\<lparr>trades_this_week := 0, last_week := 16, days_since_launch := 1008\<rparr>,
            [Liquidate, Log (Sold TIME_STOP 51 2 10)])
   \<and> map (days_held (held_at 50 (midnight 2024 4 8)) \<circ> Time)
       [quiet_bar (midnight 2024 4 9) 51 True, quiet_bar (midnight 2024 4 10) 52 True,
        quiet_bar (midnight 2024 4 11) 49 True, quiet_bar (midnight 2024 4 12) 48 True,
        quiet_bar (midnight 2024 4 15) 50 True, quiet_bar (midnight 2024 4 16) 51 True,
        quiet_bar (midnight 2024 4 17) 51 True, quiet_bar (midnight 2024 4 18) 51 True]
     = [1, 2, 3, 4, 7, 8, 9, 10]
   \<and> max_hold_days Initialize = 10
   \<and> run (held_at 50 (midnight 2024 4 12))
       [quiet_bar (midnight 2024 4 15) 51 True, quiet_bar (midnight 2024 4 16) 52 True,
        quiet_bar (midnight 2024 4 17) 49 True, quiet_bar (midnight 2024 4 18) 48 True,
        quiet_bar (midnight 2024 4 19) 50 True, quiet_bar (midnight 2024 4 22) 51 True]
     = Inr (Initialize\<lparr>last_week := 17, days_since_launch := 1005\<rparr>,
            [Liquidate, Log (Sold TIME_STOP 51 2 10)])"
  by code_simp

text \<open>
  Claim C6. In every run from the initial state, on any inputs, the weekly count stays
  between 0 and the cap \<^verbatim>\<open>max_trades_per_week\<close>, which stays 5; and in a run whose steps
  all fall in one ISO week at most 5 orders are issued. On every processed step (not a
  warm-up step) the count is first reset to 0 if the week number of the clock differs from
  the stored one, which is then stored, and only then the entry is evaluated: the count
  afterwards is that base plus the number of orders issued, at most one; no order is
  issued when the base has reached the cap; and within the same week the count never goes
  down. The same bounds hold from any state whose count is between 0 and its cap.
\<close>

theorem weekly_trade_cap:
  "(run Initialize ds = Inr (s', effs) \<longrightarrow>
      0 \<le> trades_this_week s' \<and> trades_this_week s' \<le> max_trades_per_week s'
      \<and> max_trades_per_week s' = 5)
   \<and> ((\<forall>x\<in>set ds. isocalendar_week (Time x) = w) \<and> run Initialize ds = Inr (s', effs) \<longrightarrow>
        length (orders effs) \<le> 5)
   \<and> (\<not> IsWarmingUp d \<and> OnData s d = Inr (s1, effs1) \<longrightarrow>
        (let base = (if isocalendar_week (Time d) \<noteq> last_week s then 0 else trades_this_week s)
         in last_week s1 = isocalendar_week (Time d)
          \<and> trades_this_week s1 = base + int (length (orders effs1))
          \<and> length (orders effs1) \<le> 1
          \<and> (base \<ge> max_trades_per_week s \<longrightarrow> orders effs1 = [])
          \<and> (isocalendar_week (Time d) = last_week s \<longrightarrow>
                trades_this_week s \<le> trades_this_week s1)))
   \<and> (0 \<le> trades_this_week s \<and> trades_this_week s \<le> max_trades_per_week s
        \<and> run s ds = Inr (s2, effs2) \<longrightarrow>
        0 \<le> trades_this_week s2 \<and> trades_this_week s2 \<le> max_trades_per_week s2
        \<and> max_trades_per_week s2 = max_trades_per_week s
        \<and> ((\<forall>x\<in>set ds. isocalendar_week (Time x) = w) \<longrightarrow>
              int (length (orders effs2)) \<le> max_trades_per_week s))"
proof (intro conjI impI)
  have i: "0 \<le> trades_this_week Initialize" "trades_this_week Initialize \<le> max_trades_per_week Initialize"
    "max_trades_per_week Initialize = 5"
    by (simp_all add: Initialize_def)
  {
    assume r: "run Initialize ds = Inr (s', effs)"
    from run_cap[OF r i(1,2)] i(3)
    show "0 \<le> trades_this_week s'" "trades_this_week s' \<le> max_trades_per_week s'"
      "max_trades_per_week s' = 5" by simp_all
  }
  {
    assume "(\<forall>x\<in>set ds. isocalendar_week (Time x) = w) \<and> run Initialize ds = Inr (s', effs)"
    then have w: "\<forall>x\<in>set ds. isocalendar_week (Time x) = w"
      and r: "run Initialize ds = Inr (s', effs)" by simp_all
    from run_one_week_orders[OF r w i(1,2)] i(3) show "length (orders effs) \<le> 5" by simp
  }
  {
    assume "\<not> IsWarmingUp d \<and> OnData s d = Inr (s1, effs1)"
    then have nw: "\<not> IsWarmingUp d" and r: "OnData s d = Inr (s1, effs1)" by simp_all
    from OnData_trades[OF r nw] OnData_frame[OF r]
    show "let base = (if isocalendar_week (Time d) \<noteq> last_week s then 0 else trades_this_week s)
         in last_week s1 = isocalendar_week (Time d)
          \<and> trades_this_week s1 = base + int (length (orders effs1))
          \<and> length (orders effs1) \<le> 1
          \<and> (base \<ge> max_trades_per_week s \<longrightarrow> orders effs1 = [])
          \<and> (isocalendar_week (Time d) = last_week s \<longrightarrow>
                trades_this_week s \<le> trades_this_week s1)"
      unfolding Let_def by (cases "orders effs1 = []") (auto split: if_splits)
  }
  {
    assume "0 \<le> trades_this_week s \<and> trades_this_week s \<le> max_trades_per_week s
        \<and> run s ds = Inr (s2, effs2)"
    then have c: "0 \<le> trades_this_week s" "trades_this_week s \<le> max_trades_per_week s"
      and r: "run s ds = Inr (s2, effs2)" by simp_all
    from run_cap[OF r c]
    show "0 \<le> trades_this_week s2" "trades_this_week s2 \<le> max_trades_per_week s2"
      "max_trades_per_week s2 = max_trades_per_week s" by simp_all
    {
      assume w: "\<forall>x\<in>set ds. isocalendar_week (Time x) = w"
      from run_one_week_orders[OF r w c]
      show "int (length (orders effs2)) \<le> max_trades_per_week s" .
    }
  }
qed

theorem weekly_trade_cap_witness:
  "list_all (\<lambda>x. isocalendar_week (Time x) = 2)
     [signal_bar (midnight 2024 1 8) 10 1000, signal_bar (midnight 2024 1 9) 10 1000,
      signal_bar (midnight 2024 1 10) 10 1000, signal_bar (midnight 2024 1 11) 10 1000,
      signal_bar (midnight 2024 1 12) 10 1000, signal_bar (midnight 2024 1 13) 10 1000]
   \<and> trades_and_orders (run Initialize
        [signal_bar (midnight 2024 1 8) 10 1000, signal_bar (midnight 2024 1 9) 10 1000,
         signal_bar (midnight 2024 1 10) 10 1000, signal_bar (midnight 2024 1 11) 10 1000,
         signal_bar (midnight 2024 1 12) 10 1000, signal_bar (midnight 2024 1 13) 10 1000])
       = Some (5, [95, 95, 95, 95, 95])
   \<and> isocalendar_week (Time (signal_bar (midnight 2024 1 15) 10 1000)) = 3
   \<and> trades_and_orders (run Initialize
        [signal_bar (midnight 2024 1 8) 10 1000, signal_bar (midnight 2024 1 9) 10 1000,
         signal_bar (midnight 2024 1 10) 10 1000, signal_bar (midnight 2024 1 11) 10 1000,
         signal_bar (midnight 2024 1 12) 10 1000, signal_bar (midnight 2024 1 13) 10 1000,
         signal_bar (midnight 2024 1 15) 10 1000])
       = Some (1, [95, 95, 95, 95, 95, 95])
   \<and> length [95, 95, 95, 95, 95 :: int] \<le> 5"
proof -
  let ?ds = "[signal_bar (midnight 2024 1 8) 10 1000, signal_bar (midnight 2024 1 9) 10 1000,
      signal_bar (midnight 2024 1 10) 10 1000, signal_bar (midnight 2024 1 11) 10 1000,
      signal_bar (midnight 2024 1 12) 10 1000, signal_bar (midnight 2024 1 13) 10 1000]"
  have a: "list_all (\<lambda>x. isocalendar_week (Time x) = 2) ?ds" by code_simp
  have b: "trades_and_orders (run Initialize ?ds) = Some (5, [95, 95, 95, 95, 95])" by code_simp
  have c: "isocalendar_week (Time (signal_bar (midnight 2024 1 15) 10 1000)) = 3" by code_simp
  have d: "trades_and_orders (run Initialize (?ds @ [signal_bar (midnight 2024 1 15) 10 1000]))
       = Some (1, [95, 95, 95, 95, 95, 95])" by code_simp
  from b obtain s' effs where r: "run Initialize ?ds = Inr (s', effs)"
    "orders effs = [95, 95, 95, 95, 95]"
    by (auto simp: trades_and_orders_def split: sum.splits)
  from a have w: "\<forall>x\<in>set ?ds. isocalendar_week (Time x) = 2" by (simp only: list_all_iff)
  from weekly_trade_cap[of ?ds s' effs 2, THEN conjunct2, THEN conjunct1] w r(1)
  have "length (orders effs) \<le> 5" by blast
  with r(2) have e: "length [95, 95, 95, 95, 95 :: int] \<le> 5" by simp
  from a b c d e show ?thesis by simp
qed

end
